theory Spec2Isabelle
  imports Complex_Main
begin

section \<open>Python strings\<close>

text \<open>
  A Python \<open>str\<close> is modelled as a \<open>string\<close>: the bytes of its UTF-8 encoding. Prefix and
  substring tests, replacement, splitting and joining are the same on the bytes as on the
  characters. White space is Python's: the 29 characters that \<open>str.isspace\<close> accepts, ten
  of ASCII and nineteen beyond it.

  The source upper-cases a text only to test it against ASCII words, and lower-cases a
  text only to test it against ASCII keywords. \<open>upper\<close> gives every character whose
  upper-case form has an ASCII letter in it that form: the letters a to z, and seventeen
  characters beyond ASCII (the long s and the dotless i among them). Every other character
  stands for its own upper-case form, which like it has no ASCII byte, so that the tests
  come out as in Python. \<open>lower\<close> maps the letters A to Z; beyond ASCII only U+0130 and
  U+212A have a lower-case form with an ASCII letter in it (an i before a combining dot,
  and a k), and no keyword of the source ends in i or has a k.
\<close>

fun startswith :: "string \<Rightarrow> string \<Rightarrow> bool" where
  "startswith s [] = True"
| "startswith [] (p # ps) = False"
| "startswith (c # cs) (p # ps) = (c = p \<and> startswith cs ps)"

definition space_chars :: "string list" where
  \<comment> \<open>U+0009 to U+000D, U+001C to U+0020, U+0085, U+00A0, U+1680, U+2000 to U+200A, U+2028,
      U+2029, U+202F, U+205F, U+3000\<close>
  "space_chars =
    [[CHR 0x09], [CHR 0x0A], [CHR 0x0B], [CHR 0x0C], [CHR 0x0D], [CHR 0x1C], [CHR 0x1D],
     [CHR 0x1E], [CHR 0x1F], [CHR 0x20], [CHR 0xC2, CHR 0x85], [CHR 0xC2, CHR 0xA0],
     [CHR 0xE1, CHR 0x9A, CHR 0x80], [CHR 0xE2, CHR 0x80, CHR 0x80],
     [CHR 0xE2, CHR 0x80, CHR 0x81], [CHR 0xE2, CHR 0x80, CHR 0x82],
     [CHR 0xE2, CHR 0x80, CHR 0x83], [CHR 0xE2, CHR 0x80, CHR 0x84],
     [CHR 0xE2, CHR 0x80, CHR 0x85], [CHR 0xE2, CHR 0x80, CHR 0x86],
     [CHR 0xE2, CHR 0x80, CHR 0x87], [CHR 0xE2, CHR 0x80, CHR 0x88],
     [CHR 0xE2, CHR 0x80, CHR 0x89], [CHR 0xE2, CHR 0x80, CHR 0x8A],
     [CHR 0xE2, CHR 0x80, CHR 0xA8], [CHR 0xE2, CHR 0x80, CHR 0xA9],
     [CHR 0xE2, CHR 0x80, CHR 0xAF], [CHR 0xE2, CHR 0x81, CHR 0x9F],
     [CHR 0xE3, CHR 0x80, CHR 0x80]]"

fun strip_front :: "string list \<Rightarrow> string \<Rightarrow> string" where
  \<comment> \<open>the text without the characters of \<open>toks\<close> it begins with\<close>
  "strip_front toks [] = []"
| "strip_front toks (c # cs) =
     (case find (startswith (c # cs)) toks of
        None \<Rightarrow> c # cs
      | Some k \<Rightarrow> strip_front toks (drop (length k - 1) cs))"

definition strip :: "string \<Rightarrow> string" where
  \<comment> \<open>\<open>s.strip()\<close>: white space is removed at the front, and at the end (read backwards)\<close>
  "strip s = rev (strip_front (map rev space_chars) (rev (strip_front space_chars s)))"

definition lower_char :: "char \<Rightarrow> char" where
  "lower_char c = (let n = (of_char c :: nat) in if 65 \<le> n \<and> n \<le> 90 then char_of (n + 32) else c)"

definition upper_char :: "char \<Rightarrow> char" where
  "upper_char c = (let n = (of_char c :: nat) in if 97 \<le> n \<and> n \<le> 122 then char_of (n - 32) else c)"

definition lower :: "string \<Rightarrow> string" where
  "lower s = map lower_char s"

definition upper_special :: "(string \<times> string) list" where
  \<comment> \<open>the characters beyond ASCII whose upper-case form has an ASCII letter in it, each with
      that form: U+00DF, U+0131, U+0149, U+017F, U+01F0, U+1E96 to U+1E9A, U+FB00 to U+FB06\<close>
  "upper_special =
    [([CHR 0xC3, CHR 0x9F], [CHR 0x53, CHR 0x53]),
     ([CHR 0xC4, CHR 0xB1], [CHR 0x49]),
     ([CHR 0xC5, CHR 0x89], [CHR 0xCA, CHR 0xBC, CHR 0x4E]),
     ([CHR 0xC5, CHR 0xBF], [CHR 0x53]),
     ([CHR 0xC7, CHR 0xB0], [CHR 0x4A, CHR 0xCC, CHR 0x8C]),
     ([CHR 0xE1, CHR 0xBA, CHR 0x96], [CHR 0x48, CHR 0xCC, CHR 0xB1]),
     ([CHR 0xE1, CHR 0xBA, CHR 0x97], [CHR 0x54, CHR 0xCC, CHR 0x88]),
     ([CHR 0xE1, CHR 0xBA, CHR 0x98], [CHR 0x57, CHR 0xCC, CHR 0x8A]),
     ([CHR 0xE1, CHR 0xBA, CHR 0x99], [CHR 0x59, CHR 0xCC, CHR 0x8A]),
     ([CHR 0xE1, CHR 0xBA, CHR 0x9A], [CHR 0x41, CHR 0xCA, CHR 0xBE]),
     ([CHR 0xEF, CHR 0xAC, CHR 0x80], [CHR 0x46, CHR 0x46]),
     ([CHR 0xEF, CHR 0xAC, CHR 0x81], [CHR 0x46, CHR 0x49]),
     ([CHR 0xEF, CHR 0xAC, CHR 0x82], [CHR 0x46, CHR 0x4C]),
     ([CHR 0xEF, CHR 0xAC, CHR 0x83], [CHR 0x46, CHR 0x46, CHR 0x49]),
     ([CHR 0xEF, CHR 0xAC, CHR 0x84], [CHR 0x46, CHR 0x46, CHR 0x4C]),
     ([CHR 0xEF, CHR 0xAC, CHR 0x85], [CHR 0x53, CHR 0x54]),
     ([CHR 0xEF, CHR 0xAC, CHR 0x86], [CHR 0x53, CHR 0x54])]"

fun upper :: "string \<Rightarrow> string" where
  \<comment> \<open>\<open>s.upper()\<close>, character by character\<close>
  "upper [] = []"
| "upper (c # cs) =
     (case find (\<lambda>kv. startswith (c # cs) (fst kv)) upper_special of
        None \<Rightarrow> upper_char c # upper cs
      | Some kv \<Rightarrow> snd kv @ upper (drop (length (fst kv) - 1) cs))"

definition is_continuation :: "char \<Rightarrow> bool" where
  \<comment> \<open>a byte of a character that is not its first\<close>
  "is_continuation c = (let n = (of_char c :: nat) in 128 \<le> n \<and> n < 192)"

function chars :: "string \<Rightarrow> string list" where
  \<comment> \<open>the characters of a text, each with its bytes: what \<open>len\<close> counts, an index or slice
      selects and a \<open>for\<close> loop visits\<close>
  "chars [] = []"
| "chars (c # cs) = (c # takeWhile is_continuation cs) # chars (dropWhile is_continuation cs)"
  by pat_completeness auto
termination
  by (relation "measure length") (auto simp: le_imp_less_Suc length_dropWhile_le)

fun contains :: "string \<Rightarrow> string \<Rightarrow> bool" where
  \<comment> \<open>\<open>sub in s\<close>\<close>
  "contains [] sub = (sub = [])"
| "contains (c # cs) sub = (startswith (c # cs) sub \<or> contains cs sub)"

fun replace_empty :: "string \<Rightarrow> string \<Rightarrow> string" where
  \<comment> \<open>\<open>s.replace(old, '')\<close>: the occurrences of \<open>old\<close>, found from the left without overlap,
      are removed; an empty \<open>old\<close> changes nothing\<close>
  "replace_empty [] old = []"
| "replace_empty (c # cs) old =
     (if old \<noteq> [] \<and> startswith (c # cs) old
      then replace_empty (drop (length old - 1) cs) old
      else c # replace_empty cs old)"

fun join :: "string \<Rightarrow> string list \<Rightarrow> string" where
  \<comment> \<open>\<open>sep.join(xs)\<close>\<close>
  "join sep [] = []"
| "join sep [x] = x"
| "join sep (x # y # ys) = x @ sep @ join sep (y # ys)"

fun split_nl :: "string \<Rightarrow> string list" where
  \<comment> \<open>\<open>s.split('\n')\<close>: always at least one piece\<close>
  "split_nl [] = [[]]"
| "split_nl (c # cs) =
     (if c = CHR 0x0A then [] # split_nl cs
      else (case split_nl cs of [] \<Rightarrow> [[c]] | l # ls \<Rightarrow> (c # l) # ls))"

fun str_nat :: "nat \<Rightarrow> string" where
  "str_nat n = (if n < 10 then [char_of (48 + n)] else str_nat (n div 10) @ [char_of (48 + n mod 10)])"

declare str_nat.simps [simp del]

definition str_int :: "int \<Rightarrow> string" where
  \<comment> \<open>\<open>str(i)\<close> of a Python integer\<close>
  "str_int i = (if i < 0 then CHR ''-'' # str_nat (nat (- i)) else str_nat (nat i))"

section \<open>Python values and exceptions\<close>

text \<open>
  The values that \<open>json.loads\<close> returns. A dictionary is an association list in insertion
  order whose keys are distinct (a Python \<open>dict\<close>); Python's \<open>None\<close> is \<open>JNull\<close>, so a
  function that returns \<open>None\<close> or a parsed value returns a \<open>json\<close>.
\<close>

datatype json =
    JNull
  | JBool bool
  | JInt int
  | JFloat real
  | JStr string
  | JArr "json list"
  | JObj "(string \<times> json) list"

datatype exn =
    TypeError
  | KeyError
  | AttributeError
  | IndexError
  | ValueError
  | JSONDecodeError
  | HTTPException
  | ProcessLookupError
  | RecursionError
  | OSError string
  | DatabaseError string

text \<open>
  Library functions and settings the source uses and does not define: \<open>json.loads\<close> on a
  text (the value, or the exception it raises: \<open>JSONDecodeError\<close> for a text that is not
  JSON, \<open>ValueError\<close> for an integer of too many digits, \<open>RecursionError\<close> for too deep
  a nesting), \<open>str\<close> of a float, list or dictionary, \<open>str\<close> of an exception, and the
  \<open>DATABASE_NAME\<close> environment setting.
\<close>

record py =
  loads :: "string \<Rightarrow> exn + json"
  str_other :: "json \<Rightarrow> string"
  str_exn :: "exn \<Rightarrow> string"
  database_name :: string

definition is_value_error :: "exn \<Rightarrow> bool" where
  \<comment> \<open>what \<open>except ValueError\<close> catches: \<open>JSONDecodeError\<close> is a subclass of it\<close>
  "is_value_error e = (e = ValueError \<or> e = JSONDecodeError)"

fun truthy :: "json \<Rightarrow> bool" where
  "truthy JNull = False"
| "truthy (JBool b) = b"
| "truthy (JInt n) = (n \<noteq> 0)"
| "truthy (JFloat r) = (r \<noteq> 0)"
| "truthy (JStr s) = (s \<noteq> [])"
| "truthy (JArr xs) = (xs \<noteq> [])"
| "truthy (JObj kvs) = (kvs \<noteq> [])"

fun py_str :: "py \<Rightarrow> json \<Rightarrow> string" where
  \<comment> \<open>\<open>str(v)\<close>, as an f-string formats a value\<close>
  "py_str P JNull = ''None''"
| "py_str P (JBool b) = (if b then ''True'' else ''False'')"
| "py_str P (JInt n) = str_int n"
| "py_str P (JStr s) = s"
| "py_str P v = str_other P v"

fun py_len :: "json \<Rightarrow> exn + nat" where
  "py_len (JStr s) = Inr (length (chars s))"
| "py_len (JArr xs) = Inr (length xs)"
| "py_len (JObj kvs) = Inr (length kvs)"
| "py_len v = Inl TypeError"

fun py_in :: "string \<Rightarrow> json \<Rightarrow> exn + bool" where
  \<comment> \<open>\<open>k in v\<close> for a text \<open>k\<close>\<close>
  "py_in k (JObj kvs) = Inr (k \<in> set (map fst kvs))"
| "py_in k (JArr xs) = Inr (JStr k \<in> set xs)"
| "py_in k (JStr s) = Inr (contains s k)"
| "py_in k v = Inl TypeError"

fun py_getitem :: "json \<Rightarrow> string \<Rightarrow> exn + json" where
  \<comment> \<open>\<open>v[k]\<close> for a text \<open>k\<close>\<close>
  "py_getitem (JObj kvs) k = (case map_of kvs k of Some v \<Rightarrow> Inr v | None \<Rightarrow> Inl KeyError)"
| "py_getitem v k = Inl TypeError"

fun py_first :: "json \<Rightarrow> exn + json" where
  \<comment> \<open>\<open>v[0]\<close> of a value whose length is not 0\<close>
  "py_first (JArr (x # xs)) = Inr x"
| "py_first (JArr []) = Inl IndexError"
| "py_first (JStr s) = (case chars s of [] \<Rightarrow> Inl IndexError | ch # rest \<Rightarrow> Inr (JStr ch))"
| "py_first (JObj kvs) = Inl KeyError"
| "py_first v = Inl TypeError"

fun py_iter :: "json \<Rightarrow> exn + json list" where
  \<comment> \<open>the items a \<open>for\<close> loop over \<open>v\<close> visits\<close>
  "py_iter (JArr xs) = Inr xs"
| "py_iter (JStr s) = Inr (map JStr (chars s))"
| "py_iter (JObj kvs) = Inr (map (\<lambda>kv. JStr (fst kv)) kvs)"
| "py_iter v = Inl TypeError"

fun is_dict :: "json \<Rightarrow> bool" where
  "is_dict (JObj kvs) = True"
| "is_dict v = False"

definition has_key :: "json \<Rightarrow> string \<Rightarrow> bool" where
  \<comment> \<open>\<open>isinstance(v, dict) and k in v\<close>\<close>
  "has_key v k = (case v of JObj kvs \<Rightarrow> k \<in> set (map fst kvs) | _ \<Rightarrow> False)"

definition dict_get :: "json \<Rightarrow> string \<Rightarrow> json" where
  \<comment> \<open>\<open>v[k]\<close> once \<open>has_key v k\<close> is known; \<open>v.get(k)\<close> of a dictionary\<close>
  "dict_get v k = (case v of JObj kvs \<Rightarrow> (case map_of kvs k of Some x \<Rightarrow> x | None \<Rightarrow> JNull) | _ \<Rightarrow> JNull)"

section \<open>The manager and its surroundings\<close>

text \<open>
  The handle of the child process. \<open>released\<close> says that the process has exited and the
  event loop has let go of it; from then on \<open>terminate()\<close> of an asyncio process raises
  \<open>ProcessLookupError\<close>.
\<close>

record proc =
  stdin_pipe :: bool
  returncode :: "int option"
  released :: bool

record rpc_request =
  req_id :: int
  req_method :: string
  req_params :: json

text \<open>
  What one exchange with the subprocess brings: an exception while writing, reading or
  parsing the line (\<open>Broken\<close>), an empty read (\<open>Eof\<close>), or a line that parses to a value.
\<close>

datatype reply = Broken | Eof | Reply json

text \<open>What one request to the LLM endpoint brings: an exception, or a status and a body.\<close>

datatype llm_outcome = LlmRaised | LlmResponse int string

text \<open>
  What the persistence file answers to direct access: whether connecting fails, and for
  each of the four fixed statements an exception or its rows (a row is a tuple of cells).
\<close>

record store =
  connect_error :: "exn option"
  session_count_rows :: "exn + json list list"
  message_count_rows :: "exn + json list list"
  recent_activity_rows :: "exn + json list list"
  active_sessions_rows :: "exn + json list list"

text \<open>
  The three attributes of \<open>MCPSQLiteManager\<close>, then its surroundings: the requests
  written to the subprocess so far, what the subprocess will answer, the questions sent to
  the LLM so far, what the LLM will answer, and the persistence file. Past the end of the
  answers the subprocess stream is at its end and the LLM endpoint is unreachable. Every
  call to a collaborator ends, with a value or an exception.
\<close>

record world =
  server_process :: "proc option"
  server_running :: bool
  request_id :: int
  sent :: "rpc_request list"
  replies :: "reply list"
  llm_asked :: "string list"
  llm_answers :: "llm_outcome list"
  persistence :: store

definition init :: "reply list \<Rightarrow> llm_outcome list \<Rightarrow> store \<Rightarrow> world" where
  \<comment> \<open>\<open>__init__\<close>\<close>
  "init rs ls st =
     \<lparr>server_process = None, server_running = False, request_id = 0,
      sent = [], replies = rs, llm_asked = [], llm_answers = ls, persistence = st\<rparr>"

definition get_request_id :: "world \<Rightarrow> int \<times> world" where
  "get_request_id w = (request_id w + 1, w\<lparr>request_id := request_id w + 1\<rparr>)"

definition send_mcp_request :: "rpc_request \<Rightarrow> world \<Rightarrow> json \<times> world" where
  "send_mcp_request request w =
     (case server_process w of
        None \<Rightarrow> (JNull, w)
      | Some p \<Rightarrow>
          if \<not> stdin_pipe p then (JNull, w)
          else
            (case replies w of
               [] \<Rightarrow> (JNull, w\<lparr>sent := sent w @ [request]\<rparr>)
             | Broken # rs \<Rightarrow> (JNull, w\<lparr>sent := sent w @ [request], replies := rs\<rparr>)
             | Eof # rs \<Rightarrow> (JNull, w\<lparr>sent := sent w @ [request], replies := rs\<rparr>)
             | Reply response # rs \<Rightarrow> (response, w\<lparr>sent := sent w @ [request], replies := rs\<rparr>)))"

definition unwrap_content :: "py \<Rightarrow> json \<Rightarrow> exn + json" where
  \<comment> \<open>the part of \<open>_call_mcp_tool\<close> after \<open>result = response["result"]\<close>; the inner
      \<open>except\<close> catches \<open>JSONDecodeError\<close> and \<open>TypeError\<close> only\<close>
  "unwrap_content P result =
     (if has_key result ''content'' then
        (case dict_get result ''content'' of
           JArr (c0 # cs) \<Rightarrow>
             (case c0 of
                JObj ckvs \<Rightarrow>
                  (case (case map_of ckvs ''text'' of Some t \<Rightarrow> t | None \<Rightarrow> JStr []) of
                     JStr text_content \<Rightarrow>
                       (case loads P text_content of
                          Inr v \<Rightarrow> Inr v
                        | Inl e \<Rightarrow>
                            if e = JSONDecodeError \<or> e = TypeError then Inr (JStr text_content)
                            else Inl e)
                   | text_content \<Rightarrow> Inr text_content)
              | _ \<Rightarrow> Inl AttributeError)
         | _ \<Rightarrow> Inr result)
      else Inr result)"

definition tool_result :: "py \<Rightarrow> json \<Rightarrow> exn + json" where
  \<comment> \<open>the part of \<open>_call_mcp_tool\<close> after the response is read, inside its \<open>try\<close>\<close>
  "tool_result P response =
     (if \<not> truthy response then Inr JNull
      else
        (case py_in ''result'' response of
           Inl e \<Rightarrow> Inl e
         | Inr False \<Rightarrow> Inr JNull
         | Inr True \<Rightarrow>
             (case py_getitem response ''result'' of
                Inl e \<Rightarrow> Inl e
              | Inr result \<Rightarrow> unwrap_content P result)))"

definition tool_request :: "int \<Rightarrow> string \<Rightarrow> json \<Rightarrow> rpc_request" where
  "tool_request n tool_name arguments =
     \<lparr>req_id = n, req_method = ''tools/call'',
      req_params = JObj [(''name'', JStr tool_name), (''arguments'', arguments)]\<rparr>"

definition call_mcp_tool :: "py \<Rightarrow> string \<Rightarrow> json \<Rightarrow> world \<Rightarrow> json \<times> world" where
  "call_mcp_tool P tool_name arguments w =
     (let (n, w1) = get_request_id w;
          (response, w2) = send_mcp_request (tool_request n tool_name arguments) w1
      in (case tool_result P response of Inl e \<Rightarrow> JNull | Inr v \<Rightarrow> v, w2))"

definition extract_query_result :: "json \<Rightarrow> string \<Rightarrow> json" where
  "extract_query_result query_response column_name =
     (case query_response of
        JObj kvs \<Rightarrow>
          (case map_of kvs ''results'' of
             Some (JArr results) \<Rightarrow>
               (case results of
                  JObj row # rest \<Rightarrow> (case map_of row column_name of Some v \<Rightarrow> v | None \<Rightarrow> JNull)
                | _ \<Rightarrow> JNull)
           | _ \<Rightarrow> (case map_of kvs column_name of Some v \<Rightarrow> v | None \<Rightarrow> JNull))
      | _ \<Rightarrow> JNull)"

definition extract_query_results :: "json \<Rightarrow> json" where
  "extract_query_results query_response =
     (case query_response of
        JObj kvs \<Rightarrow> (case map_of kvs ''results'' of Some v \<Rightarrow> v | None \<Rightarrow> JArr [])
      | JArr xs \<Rightarrow> JArr xs
      | _ \<Rightarrow> JArr [])"


section \<open>Texts\<close>

definition nl :: string where
  "nl = [CHR 0x0A]"

definition dq :: string where
  "dq = [CHR 0x22]"

definition bullet :: string where
  \<comment> \<open>U+2022\<close>
  "bullet = [CHR 0xE2, CHR 0x80, CHR 0xA2]"

definition bar_chart :: string where
  \<comment> \<open>U+1F4CA\<close>
  "bar_chart = [CHR 0xF0, CHR 0x9F, CHR 0x93, CHR 0x8A]"

definition light_bulb :: string where
  \<comment> \<open>U+1F4A1\<close>
  "light_bulb = [CHR 0xF0, CHR 0x9F, CHR 0x92, CHR 0xA1]"

definition cross_mark :: string where
  \<comment> \<open>U+274C\<close>
  "cross_mark = [CHR 0xE2, CHR 0x9D, CHR 0x8C]"

definition answer_header :: "string \<Rightarrow> string" where
  "answer_header user_question =
     bar_chart @ '' **Answer to: '' @ dq @ user_question @ dq @ ''**'' @ nl @ nl"

definition no_results_message :: "string \<Rightarrow> string" where
  "no_results_message user_question =
     cross_mark @ '' No results found for: '' @ dq @ user_question @ dq"

definition mcp_marker :: string where
  \<comment> \<open>the last line of a report made through the subprocess (U+2705)\<close>
  "mcp_marker = nl @ [CHR 0xE2, CHR 0x9C, CHR 0x85] @ '' *Analysis via MCP SQLite server*''"

definition basic_marker :: string where
  \<comment> \<open>the last line of a report made by direct access (U+26A0 U+FE0F)\<close>
  "basic_marker =
     nl @ [CHR 0xE2, CHR 0x9A, CHR 0xA0, CHR 0xEF, CHR 0xB8, CHR 0x8F]
        @ '' *Using basic mode - MCP server not available*''"

definition recent_activity_header :: string where
  \<comment> \<open>U+1F4C5\<close>
  "recent_activity_header =
     nl @ [CHR 0xF0, CHR 0x9F, CHR 0x93, CHR 0x85] @ '' **Recent Activity (last 7 days):**''"

definition active_sessions_header :: string where
  \<comment> \<open>U+1F525\<close>
  "active_sessions_header =
     nl @ [CHR 0xF0, CHR 0x9F, CHR 0x94, CHR 0xA5] @ '' **Most Active Sessions:**''"

definition recent_activity_sql :: string where
  "recent_activity_sql =
     nl @ ''                SELECT DATE(s.last_activity) as date, COUNT(*) as sessions''
     @ nl @ ''                FROM sessions s ''
     @ nl @ ''                WHERE s.last_activity > datetime('' @ [CHR 0x27] @ ''now'' @ [CHR 0x27]
          @ '', '' @ [CHR 0x27] @ ''-7 days'' @ [CHR 0x27] @ '')''
     @ nl @ ''                GROUP BY DATE(s.last_activity) ''
     @ nl @ ''                ORDER BY date DESC ''
     @ nl @ ''                LIMIT 5''
     @ nl @ ''            ''"

definition active_sessions_sql :: string where
  "active_sessions_sql =
     nl @ ''                SELECT s.id, COUNT(m.id) as message_count, ''
     @ nl @ ''                       datetime(s.last_activity) as last_active''
     @ nl @ ''                FROM sessions s ''
     @ nl @ ''                LEFT JOIN messages m ON s.id = m.session_id ''
     @ nl @ ''                GROUP BY s.id ''
     @ nl @ ''                ORDER BY message_count DESC ''
     @ nl @ ''                LIMIT 3''
     @ nl @ ''            ''"

definition query_arguments :: "string \<Rightarrow> json" where
  \<comment> \<open>\<open>{"sql": sql, "values": []}\<close>\<close>
  "query_arguments sql = JObj [(''sql'', JStr sql), (''values'', JArr [])]"

section \<open>NL-to-SQL Translator\<close>

fun scan_lines :: "py \<Rightarrow> string list \<Rightarrow> exn + json" where
  \<comment> \<open>the loop of \<open>parse_ollama_response\<close> over the lines of a streamed body, last line first\<close>
  "scan_lines P [] = Inl HTTPException"
| "scan_lines P (line # rest) =
     (if strip line \<noteq> [] then
        (case loads P line of
           Inl e \<Rightarrow> if e = JSONDecodeError then scan_lines P rest else Inl e
         | Inr line_data \<Rightarrow>
             (case py_in ''message'' line_data of
                Inl e \<Rightarrow> Inl e
              | Inr False \<Rightarrow> scan_lines P rest
              | Inr True \<Rightarrow>
                  (case py_getitem line_data ''message'' of
                     Inl e \<Rightarrow> Inl e
                   | Inr m \<Rightarrow>
                       (case py_in ''content'' m of
                          Inl e \<Rightarrow> Inl e
                        | Inr False \<Rightarrow> scan_lines P rest
                        | Inr True \<Rightarrow> py_getitem m ''content''))))
      else scan_lines P rest)"

definition parse_ollama_response :: "py \<Rightarrow> string \<Rightarrow> exn + json" where
  \<comment> \<open>of the body of the response: only a \<open>ValueError\<close> of \<open>response.json()\<close> is caught\<close>
  "parse_ollama_response P body =
     (case loads P body of
        Inr response_data \<Rightarrow>
          (case py_getitem response_data ''message'' of
             Inl e \<Rightarrow> Inl e
           | Inr m \<Rightarrow> py_getitem m ''content'')
      | Inl e \<Rightarrow>
          if is_value_error e then scan_lines P (rev (split_nl (strip body))) else Inl e)"

definition strip_fences :: "string \<Rightarrow> string" where
  \<comment> \<open>the removal of Markdown code fences from the stripped reply\<close>
  "strip_fences sql_query =
     (if startswith sql_query ''```sql''
      then strip (replace_empty (replace_empty sql_query ''```sql'') ''```'')
      else if startswith sql_query ''```'' then strip (replace_empty sql_query ''```'')
      else sql_query)"

definition safety_check :: "string \<Rightarrow> bool" where
  \<comment> \<open>the condition under \<open># Basic safety checks\<close>\<close>
  "safety_check sql_query =
     (startswith (upper sql_query) ''SELECT''
      \<and> \<not> contains (upper sql_query) ''DROP''
      \<and> \<not> contains (upper sql_query) ''DELETE''
      \<and> \<not> contains (upper sql_query) ''UPDATE''
      \<and> \<not> contains (upper sql_query) ''INSERT''
      \<and> sql_query \<noteq> ''INVALID'')"

definition sql_from_reply :: "py \<Rightarrow> int \<Rightarrow> string \<Rightarrow> exn + string option" where
  \<comment> \<open>\<open>_generate_sql_from_question\<close> from \<open>if response.status_code == 200\<close> on, inside its
      \<open>try\<close>; \<open>.strip()\<close> of a content that is no text raises\<close>
  "sql_from_reply P status_code body =
     (if status_code = 200 then
        (case parse_ollama_response P body of
           Inl e \<Rightarrow> Inl e
         | Inr (JStr content) \<Rightarrow>
             (let sql_query = strip_fences (strip content)
              in if safety_check sql_query then Inr (Some sql_query) else Inr None)
         | Inr other \<Rightarrow> Inl AttributeError)
      else Inr None)"

definition generate_sql_from_question :: "py \<Rightarrow> string \<Rightarrow> world \<Rightarrow> string option \<times> world" where
  \<comment> \<open>the prompt is a fixed text around the question, so the question stands for it in
      \<open>llm_asked\<close>; every exception gives \<open>None\<close>\<close>
  "generate_sql_from_question P question w =
     (let w1 = w\<lparr>llm_asked := llm_asked w @ [question], llm_answers := tl (llm_answers w)\<rparr>
      in case llm_answers w of
           [] \<Rightarrow> (None, w1)
         | LlmRaised # rest \<Rightarrow> (None, w1)
         | LlmResponse status_code body # rest \<Rightarrow>
             (case sql_from_reply P status_code body of
                Inl e \<Rightarrow> (None, w1)
              | Inr r \<Rightarrow> (r, w1)))"

section \<open>Result Formatter\<close>

definition format_row :: "py \<Rightarrow> json \<Rightarrow> string" where
  "format_row P row =
     (case row of
        JObj kvs \<Rightarrow> ''  '' @ bullet @ '' '' @ join '', '' (map (\<lambda>(key, v). key @ '': '' @ py_str P v) kvs)
      | _ \<Rightarrow> ''  '' @ bullet @ '' '' @ py_str P row)"

definition format_rows :: "py \<Rightarrow> json list \<Rightarrow> string" where
  \<comment> \<open>the \<open>else\<close> branch of \<open>_format_query_results\<close>, for the items of \<open>data\<close>\<close>
  "format_rows P rows =
     join nl (map (format_row P) (take 10 rows)
              @ (if length rows > 10
                 then [''  ... and '' @ str_int (int (length rows) - 10) @ '' more rows'']
                 else []))"

definition format_try :: "py \<Rightarrow> json \<Rightarrow> exn + string" where
  \<comment> \<open>the \<open>try\<close> block of \<open>_format_query_results\<close>; slicing a dictionary raises\<close>
  "format_try P result =
     (let data = extract_query_results result in
      if \<not> truthy data then Inr ''No data found.''
      else
        (case py_len data of
           Inl e \<Rightarrow> Inl e
         | Inr n \<Rightarrow>
             (case (if n = 1
                    then (case py_first data of
                            Inl e \<Rightarrow> Inl e
                          | Inr d0 \<Rightarrow> (case py_len d0 of Inl e \<Rightarrow> Inl e | Inr m \<Rightarrow> Inr (m = 1, d0)))
                    else Inr (False, JNull)) of
                Inl e \<Rightarrow> Inl e
              | Inr (True, d0) \<Rightarrow>
                  (case d0 of
                     JObj [(key, v)] \<Rightarrow> Inr (''**Result:** '' @ py_str P v)
                   | _ \<Rightarrow> Inl AttributeError)
              | Inr (False, d0) \<Rightarrow>
                  (case data of
                     JObj kvs \<Rightarrow> Inl TypeError
                   | _ \<Rightarrow> (case py_iter data of Inl e \<Rightarrow> Inl e | Inr rows \<Rightarrow> Inr (format_rows P rows))))))"

definition format_query_results :: "py \<Rightarrow> json \<Rightarrow> string" where
  "format_query_results P result =
     (case format_try P result of
        Inr text \<Rightarrow> text
      | Inl e \<Rightarrow> ''Results available but formatting failed: '' @ str_exn P e)"


section \<open>Query Router: keyword classification\<close>

definition db_keywords :: "string list" where
  "db_keywords =
    [''database'', ''db'', ''sql'', ''query'', ''table'', ''sessions'', ''messages'',
     ''conversation'', ''chat history'', ''statistics'', ''stats'', ''count'',
     ''analyze'', ''analysis'', ''data'', ''search history'', ''most active'',
     ''recent sessions'', ''message count'', ''user activity'', ''trends'']"

definition is_database_query :: "string \<Rightarrow> bool" where
  "is_database_query message = list_ex (contains (lower message)) db_keywords"

definition metadata_keywords :: "string list" where
  "metadata_keywords =
    [''table'', ''tables'', ''schema'', ''structure'', ''columns'', ''database structure'',
     ''what tables'', ''how many tables'', ''table names'', ''table list'']"

definition is_metadata_query :: "string \<Rightarrow> bool" where
  "is_metadata_query question = list_ex (contains (lower question)) metadata_keywords"

section \<open>Query Router: the metadata path and the NL-to-SQL path\<close>

definition table_count :: "json \<Rightarrow> exn + string" where
  \<comment> \<open>the count shown by the first branch of \<open>_handle_metadata_query\<close>\<close>
  "table_count tables =
     (if has_key tables ''tables'' then
        (case py_len (dict_get tables ''tables'') of
           Inl e \<Rightarrow> Inl e
         | Inr n \<Rightarrow> Inr (str_int (int n)))
      else (case tables of JArr xs \<Rightarrow> Inr (str_int (int (length xs))) | _ \<Rightarrow> Inr ''Unknown''))"

definition numbered_table :: "py \<Rightarrow> nat \<times> json \<Rightarrow> string" where
  "numbered_table P it =
     ''  '' @ str_int (int (fst it)) @ ''. ''
     @ (if has_key (snd it) ''name'' then py_str P (dict_get (snd it) ''name'') else py_str P (snd it))"

definition info_lines :: "py \<Rightarrow> json \<Rightarrow> string list" where
  "info_lines P db_info =
     (case db_info of
        JObj kvs \<Rightarrow> map (\<lambda>(key, v). ''  '' @ bullet @ '' '' @ key @ '': '' @ py_str P v) kvs
      | _ \<Rightarrow> [])"

definition asks_table_count :: "string \<Rightarrow> bool" where
  \<comment> \<open>the condition of the first branch of \<open>_handle_metadata_query\<close>\<close>
  "asks_table_count user_question =
     list_ex (contains (lower user_question)) [''how many tables'', ''count tables'', ''number of tables'']"

definition asks_table_list :: "string \<Rightarrow> bool" where
  \<comment> \<open>the condition of its second branch\<close>
  "asks_table_list user_question =
     list_ex (contains (lower user_question))
       [''what tables'', ''list tables'', ''table names'', ''show tables'']"

definition asks_db_info :: "string \<Rightarrow> bool" where
  \<comment> \<open>the condition of its third branch\<close>
  "asks_db_info user_question =
     list_ex (contains (lower user_question)) [''database info'', ''db info'', ''database structure'']"

definition table_count_answer :: "py \<Rightarrow> string \<Rightarrow> world \<Rightarrow> string option \<times> world" where
  \<comment> \<open>the first branch; an exception inside gives \<open>None\<close>\<close>
  "table_count_answer P user_question w =
     (let (tables, w1) = call_mcp_tool P ''list_tables'' (JObj []) w in
      if truthy tables then
        (case table_count tables of
           Inl e \<Rightarrow> (None, w1)
         | Inr c \<Rightarrow>
             (Some (answer_header user_question @ ''**Result:** '' @ c @ '' tables''
                    @ nl @ nl @ light_bulb @ '' *Used MCP list_tables tool*''), w1))
      else (None, w1))"

definition table_list_answer :: "py \<Rightarrow> string \<Rightarrow> world \<Rightarrow> string option \<times> world" where
  \<comment> \<open>the second branch; an exception inside gives \<open>None\<close>\<close>
  "table_list_answer P user_question w =
     (let (tables, w1) = call_mcp_tool P ''list_tables'' (JObj []) w in
      if truthy tables then
        (let table_list =
               (if has_key tables ''tables'' then dict_get tables ''tables''
                else (case tables of JArr xs \<Rightarrow> JArr xs | _ \<Rightarrow> JArr []))
         in if truthy table_list then
              (case py_iter table_list of
                 Inl e \<Rightarrow> (None, w1)
               | Inr ts \<Rightarrow>
                   (Some (answer_header user_question @ ''**Tables in your database:**'' @ nl
                          @ join nl (map (numbered_table P) (List.enumerate 1 ts))
                          @ nl @ nl @ light_bulb @ '' *Used MCP list_tables tool*''), w1))
            else (None, w1))
      else (None, w1))"

definition db_info_answer :: "py \<Rightarrow> string \<Rightarrow> world \<Rightarrow> string option \<times> world" where
  \<comment> \<open>the third branch\<close>
  "db_info_answer P user_question w =
     (let (db_info, w1) = call_mcp_tool P ''db_info'' (JObj []) w in
      if truthy db_info then
        (Some (answer_header user_question @ ''**Database Information:**'' @ nl
               @ join nl (info_lines P db_info)
               @ nl @ nl @ light_bulb @ '' *Used MCP db_info tool*''), w1)
      else (None, w1))"

definition handle_metadata_query :: "py \<Rightarrow> string \<Rightarrow> world \<Rightarrow> string option \<times> world" where
  "handle_metadata_query P user_question w =
     (if asks_table_count user_question then table_count_answer P user_question w
      else if asks_table_list user_question then table_list_answer P user_question w
      else if asks_db_info user_question then db_info_answer P user_question w
      else (None, w))"

definition is_answer :: "string option \<Rightarrow> bool" where
  \<comment> \<open>\<open>if r:\<close> for an optional text\<close>
  "is_answer r = (case r of None \<Rightarrow> False | Some text \<Rightarrow> text \<noteq> [])"

definition sql_path :: "py \<Rightarrow> string \<Rightarrow> world \<Rightarrow> string option \<times> world" where
  \<comment> \<open>\<open>_handle_natural_language_query\<close> from \<open># Generate SQL\<close> on\<close>
  "sql_path P user_question w =
     (let (sql_query, w1) = generate_sql_from_question P user_question w in
      if is_answer sql_query then
        (let sql = the sql_query;
             (result, w2) = call_mcp_tool P ''query'' (query_arguments sql) w1
         in if truthy result then
              (Some (answer_header user_question @ format_query_results P result
                     @ nl @ nl @ light_bulb @ '' *Generated SQL: `'' @ sql @ ''`*''), w2)
            else (Some (no_results_message user_question), w2))
      else (None, w1))"

definition handle_natural_language_query :: "py \<Rightarrow> string \<Rightarrow> world \<Rightarrow> string option \<times> world" where
  \<comment> \<open>each callee absorbs its own exceptions, so nothing reaches the \<open>except\<close> of this one\<close>
  "handle_natural_language_query P user_question w =
     (if is_metadata_query user_question then
        (let (metadata_result, w1) = handle_metadata_query P user_question w in
         if is_answer metadata_result then (metadata_result, w1)
         else sql_path P user_question w1)
      else sql_path P user_question w)"

section \<open>Fallback Analyzer\<close>

definition db_info_section :: "py \<Rightarrow> json \<Rightarrow> string list" where
  "db_info_section P db_info =
     (if truthy db_info then
        [bar_chart @ '' **Database Information (via MCP):**'', ''Database: '' @ database_name P]
        @ (case db_info of
             JObj kvs \<Rightarrow> map (\<lambda>(key, v). key @ '': '' @ py_str P v) (filter (\<lambda>(key, v). key \<noteq> ''tables'') kvs)
           | _ \<Rightarrow> [])
      else [])"

definition tables_section :: "py \<Rightarrow> json \<Rightarrow> exn + string list" where
  \<comment> \<open>U+1F5C2 U+FE0F; joining over a \<open>tables\<close> entry that is no collection raises\<close>
  "tables_section P tables =
     (if truthy tables then
        (let table_list =
               (if has_key tables ''tables'' then dict_get tables ''tables''
                else (case tables of JArr xs \<Rightarrow> JArr xs | JStr t \<Rightarrow> JArr [JStr t] | _ \<Rightarrow> JArr []))
         in if truthy table_list then
              (case py_iter table_list of
                 Inl e \<Rightarrow> Inl e
               | Inr ts \<Rightarrow>
                   Inr [nl @ [CHR 0xF0, CHR 0x9F, CHR 0x97, CHR 0x82, CHR 0xEF, CHR 0xB8, CHR 0x8F]
                        @ '' **Tables:** '' @ join '', '' (map (py_str P) ts)])
            else Inr [])
      else Inr [])"

definition total_sessions_section :: "py \<Rightarrow> json \<Rightarrow> string list" where
  \<comment> \<open>U+1F4C8\<close>
  "total_sessions_section P session_stats =
     (if truthy session_stats then
        (let total_sessions = extract_query_result session_stats ''total_sessions'' in
         if total_sessions \<noteq> JNull
         then [nl @ [CHR 0xF0, CHR 0x9F, CHR 0x93, CHR 0x88] @ '' **Total Sessions:** '' @ py_str P total_sessions]
         else [])
      else [])"

definition total_messages_section :: "py \<Rightarrow> json \<Rightarrow> string list" where
  \<comment> \<open>U+1F4AC\<close>
  "total_messages_section P message_stats =
     (if truthy message_stats then
        (let total_messages = extract_query_result message_stats ''total_messages'' in
         if total_messages \<noteq> JNull
         then [[CHR 0xF0, CHR 0x9F, CHR 0x92, CHR 0xAC] @ '' **Total Messages:** '' @ py_str P total_messages]
         else [])
      else [])"

definition activity_line :: "py \<Rightarrow> json \<Rightarrow> string list" where
  "activity_line P row =
     (if has_key row ''date'' \<and> has_key row ''sessions''
      then [''  '' @ bullet @ '' '' @ py_str P (dict_get row ''date'') @ '': ''
            @ py_str P (dict_get row ''sessions'') @ '' sessions'']
      else [])"

definition recent_activity_section :: "py \<Rightarrow> json \<Rightarrow> exn + string list" where
  "recent_activity_section P recent_activity =
     (if truthy recent_activity then
        (let activity_data = extract_query_results recent_activity in
         if truthy activity_data then
           (case py_iter activity_data of
              Inl e \<Rightarrow> Inl e
            | Inr rows \<Rightarrow> Inr (recent_activity_header # concat (map (activity_line P) rows)))
         else Inr [])
      else Inr [])"

definition session_line :: "py \<Rightarrow> nat \<times> json \<Rightarrow> string list" where
  "session_line P it =
     (if has_key (snd it) ''id'' \<and> has_key (snd it) ''message_count'' \<and> has_key (snd it) ''last_active''
      then [''  '' @ str_int (int (fst it)) @ ''. Session ''
            @ concat (take 8 (chars (py_str P (dict_get (snd it) ''id'')))) @ ''...'' @ '': ''
            @ py_str P (dict_get (snd it) ''message_count'') @ '' messages (last active: ''
            @ py_str P (dict_get (snd it) ''last_active'') @ '')'']
      else [])"

definition active_sessions_section :: "py \<Rightarrow> json \<Rightarrow> exn + string list" where
  "active_sessions_section P active_sessions =
     (if truthy active_sessions then
        (let sessions_data = extract_query_results active_sessions in
         if truthy sessions_data then
           (case py_iter sessions_data of
              Inl e \<Rightarrow> Inl e
            | Inr rows \<Rightarrow>
                Inr (active_sessions_header # concat (map (session_line P) (List.enumerate 1 rows))))
         else Inr [])
      else Inr [])"

definition get_mcp_database_stats :: "py \<Rightarrow> world \<Rightarrow> (exn + string list) \<times> world" where
  \<comment> \<open>six tool calls in a fixed order; an exception ends the function where it is raised\<close>
  "get_mcp_database_stats P w =
     (let (db_info, w1) = call_mcp_tool P ''db_info'' (JObj []) w;
          (tables, w2) = call_mcp_tool P ''list_tables'' (JObj []) w1
      in case tables_section P tables of
           Inl e \<Rightarrow> (Inl e, w2)
         | Inr r2 \<Rightarrow>
             (let (session_stats, w3) =
                    call_mcp_tool P ''query''
                      (query_arguments ''SELECT COUNT(*) as total_sessions FROM sessions'') w2;
                  (message_stats, w4) =
                    call_mcp_tool P ''query''
                      (query_arguments ''SELECT COUNT(*) as total_messages FROM messages'') w3;
                  (recent_activity, w5) =
                    call_mcp_tool P ''query'' (query_arguments recent_activity_sql) w4
              in case recent_activity_section P recent_activity of
                   Inl e \<Rightarrow> (Inl e, w5)
                 | Inr r5 \<Rightarrow>
                     (let (active_sessions, w6) =
                            call_mcp_tool P ''query'' (query_arguments active_sessions_sql) w5
                      in case active_sessions_section P active_sessions of
                           Inl e \<Rightarrow> (Inl e, w6)
                         | Inr r6 \<Rightarrow>
                             (let results =
                                    db_info_section P db_info @ r2
                                    @ total_sessions_section P session_stats
                                    @ total_messages_section P message_stats @ r5 @ r6
                              in (Inr (if results \<noteq> [] then results @ [mcp_marker] else results), w6)))))"

definition first_cell :: "json list list \<Rightarrow> exn + json" where
  \<comment> \<open>\<open>cursor.fetchone()[0]\<close>\<close>
  "first_cell rows =
     (case rows of
        [] \<Rightarrow> Inl TypeError
      | [] # rest \<Rightarrow> Inl IndexError
      | (c # cs) # rest \<Rightarrow> Inr c)"

fun recent_lines :: "py \<Rightarrow> json list list \<Rightarrow> exn + string list" where
  \<comment> \<open>\<open>for date, count in recent_activity\<close>\<close>
  "recent_lines P [] = Inr []"
| "recent_lines P (row # rest) =
     (case row of
        [date, count] \<Rightarrow>
          (case recent_lines P rest of
             Inl e \<Rightarrow> Inl e
           | Inr ls \<Rightarrow>
               Inr ((''  '' @ bullet @ '' '' @ py_str P date @ '': '' @ py_str P count @ '' sessions'') # ls))
      | _ \<Rightarrow> Inl ValueError)"

fun active_lines :: "py \<Rightarrow> nat \<Rightarrow> json list list \<Rightarrow> exn + string list" where
  \<comment> \<open>\<open>for i, (session_id, msg_count, last_active) in enumerate(active_sessions, i)\<close>; only a
      text can be sliced and joined to \<open>"..."\<close>\<close>
  "active_lines P i [] = Inr []"
| "active_lines P i (row # rest) =
     (case row of
        [session_id, msg_count, last_active] \<Rightarrow>
          (case session_id of
             JStr sid \<Rightarrow>
               (case active_lines P (Suc i) rest of
                  Inl e \<Rightarrow> Inl e
                | Inr ls \<Rightarrow>
                    Inr ((''  '' @ str_int (int i) @ ''. Session '' @ concat (take 8 (chars sid)) @ ''...'' @ '': ''
                          @ py_str P msg_count @ '' messages (last active: ''
                          @ py_str P last_active @ '')'') # ls))
           | _ \<Rightarrow> Inl TypeError)
      | _ \<Rightarrow> Inl ValueError)"

definition basic_try :: "py \<Rightarrow> store \<Rightarrow> exn + string" where
  \<comment> \<open>the \<open>try\<close> block of \<open>_basic_database_analysis\<close> (U+1F4CA, U+1F4AC)\<close>
  "basic_try P st =
     (case connect_error st of
        Some e \<Rightarrow> Inl e
      | None \<Rightarrow>
     (case session_count_rows st of Inl e \<Rightarrow> Inl e | Inr rows1 \<Rightarrow>
     (case first_cell rows1 of Inl e \<Rightarrow> Inl e | Inr session_count \<Rightarrow>
     (case message_count_rows st of Inl e \<Rightarrow> Inl e | Inr rows2 \<Rightarrow>
     (case first_cell rows2 of Inl e \<Rightarrow> Inl e | Inr message_count \<Rightarrow>
     (case recent_activity_rows st of Inl e \<Rightarrow> Inl e | Inr recent_activity \<Rightarrow>
     (case recent_lines P recent_activity of Inl e \<Rightarrow> Inl e | Inr r3 \<Rightarrow>
     (case active_sessions_rows st of Inl e \<Rightarrow> Inl e | Inr active_sessions \<Rightarrow>
     (case active_lines P 1 active_sessions of Inl e \<Rightarrow> Inl e | Inr r4 \<Rightarrow>
        Inr (join nl
              ([bar_chart @ '' **Total Sessions:** '' @ py_str P session_count,
                [CHR 0xF0, CHR 0x9F, CHR 0x92, CHR 0xAC] @ '' **Total Messages:** '' @ py_str P message_count]
               @ (if recent_activity \<noteq> [] then recent_activity_header # r3 else [])
               @ (if active_sessions \<noteq> [] then active_sessions_header # r4 else [])
               @ [basic_marker])))))))))))"

definition basic_database_analysis :: "py \<Rightarrow> store \<Rightarrow> exn + string" where
  \<comment> \<open>\<open>Inl\<close> is an exception that leaves the function\<close>
  "basic_database_analysis P st =
     (case basic_try P st of
        Inr report \<Rightarrow> Inr report
      | Inl e \<Rightarrow> Inr (''Error analyzing database: '' @ str_exn P e))"

section \<open>Query Router: the entry point\<close>

definition stats_report :: "py \<Rightarrow> world \<Rightarrow> (exn + string) \<times> world" where
  \<comment> \<open>\<open>execute_database_query\<close> from \<open># Use MCP to get comprehensive database analysis\<close> on\<close>
  "stats_report P w =
     (case get_mcp_database_stats P w of
        (Inl e, w1) \<Rightarrow> (Inl e, w1)
      | (Inr results, w1) \<Rightarrow>
          (Inr (if results \<noteq> [] then join nl results
                else ''No database analysis results available via MCP.''), w1))"

definition is_blank :: "string option \<Rightarrow> bool" where
  \<comment> \<open>\<open>not (user_question and user_question.strip())\<close>\<close>
  "is_blank user_question =
     (case user_question of None \<Rightarrow> True | Some q \<Rightarrow> q = [] \<or> strip q = [])"

definition execute_try :: "py \<Rightarrow> string option \<Rightarrow> world \<Rightarrow> (exn + string) \<times> world" where
  \<comment> \<open>the \<open>try\<close> block of \<open>execute_database_query\<close>\<close>
  "execute_try P user_question w =
     (if \<not> is_blank user_question then
        (let (custom_result, w1) = handle_natural_language_query P (the user_question) w in
         if is_answer custom_result then (Inr (the custom_result), w1)
         else stats_report P w1)
      else stats_report P w)"

definition execute_database_query :: "py \<Rightarrow> string option \<Rightarrow> world \<Rightarrow> (exn + string) \<times> world" where
  \<comment> \<open>\<open>Inl\<close> is an exception that reaches the caller\<close>
  "execute_database_query P user_question w =
     (if \<not> server_running w then (basic_database_analysis P (persistence w), w)
      else
        (case execute_try P user_question w of
           (Inr text, w1) \<Rightarrow> (Inr text, w1)
         | (Inl e, w1) \<Rightarrow> (basic_database_analysis P (persistence w1), w1)))"

section \<open>Transport: start and stop\<close>

definition terminate :: "proc \<Rightarrow> exn + unit" where
  \<comment> \<open>\<open>Process.terminate()\<close> of asyncio: the signal is sent unless the exited process has
      been let go of\<close>
  "terminate p = (if released p then Inl ProcessLookupError else Inr ())"

definition stop_server :: "world \<Rightarrow> exn + world" where
  \<comment> \<open>\<open>Inl\<close> is an exception that reaches the caller: there is no \<open>try\<close> in \<open>stop_server\<close>\<close>
  "stop_server w =
     (case server_process w of
        None \<Rightarrow> Inr w
      | Some p \<Rightarrow>
          (case terminate p of
             Inl e \<Rightarrow> Inl e
           | Inr u \<Rightarrow> Inr (w\<lparr>server_running := False\<rparr>)))"

definition initialize_params :: json where
  "initialize_params =
     JObj [(''protocolVersion'', JStr ''2024-11-05''),
           (''capabilities'', JObj [(''tools'', JObj [])]),
           (''clientInfo'', JObj [(''name'', JStr ''Leo Chatbot''), (''version'', JStr ''1.0.0'')])]"

definition initialize_mcp_connection :: "world \<Rightarrow> bool \<times> world" where
  "initialize_mcp_connection w =
     (let (n, w1) = get_request_id w;
          (response, w2) =
            send_mcp_request \<lparr>req_id = n, req_method = ''initialize'', req_params = initialize_params\<rparr> w1
      in ((if truthy response
           then (case py_in ''result'' response of Inr True \<Rightarrow> True | _ \<Rightarrow> False)
           else False), w2))"

text \<open>
  What the operating system does when the server is started: the outcome of running
  \<open>which npx\<close> (an exception or its return code) and of spawning the server (an exception,
  or the handle as it stands after the two seconds of waiting).
\<close>

record launch =
  which_npx :: "exn + int"
  spawned :: "exn + proc"

definition start_server :: "launch \<Rightarrow> world \<Rightarrow> bool \<times> world" where
  "start_server l w =
     (case which_npx l of
        Inl e \<Rightarrow> (False, w)
      | Inr rc \<Rightarrow>
          if rc \<noteq> 0 then (False, w)
          else
            (case spawned l of
               Inl e \<Rightarrow> (False, w)
             | Inr p \<Rightarrow>
                 (let w1 = w\<lparr>server_process := Some p\<rparr> in
                  if returncode p = None then
                    (let (init_success, w2) = initialize_mcp_connection w1 in
                     if init_success then (True, w2\<lparr>server_running := True\<rparr>) else (False, w2))
                  else (False, w1))))"


section \<open>The safety filter in the words of the specification\<close>

text \<open>
  Case is ignored the way Python's upper-casing ignores it. A statement begins with a
  word when the first characters of the upper-cased statement are that word, and contains
  it when the characters of the upper-cased statement from some position on are that word.
\<close>

definition spec_begins_with :: "string \<Rightarrow> string \<Rightarrow> bool" where
  "spec_begins_with stmt word = (take (length word) (upper stmt) = word)"

definition spec_contains :: "string \<Rightarrow> string \<Rightarrow> bool" where
  "spec_contains stmt word =
     (\<exists>i \<in> {0..length (upper stmt)}. take (length word) (drop i (upper stmt)) = word)"

definition spec_safe :: "string \<Rightarrow> bool" where
  "spec_safe stmt =
     (spec_begins_with stmt ''SELECT''
      \<and> \<not> spec_contains stmt ''DROP''
      \<and> \<not> spec_contains stmt ''DELETE''
      \<and> \<not> spec_contains stmt ''UPDATE''
      \<and> \<not> spec_contains stmt ''INSERT''
      \<and> stmt \<noteq> ''INVALID'')"


section \<open>Notions used to state the claims\<close>

definition prefix_free :: "string list \<Rightarrow> bool" where
  \<comment> \<open>no text of the list is empty or begins with another one\<close>
  "prefix_free toks = list_all (\<lambda>a. a \<noteq> [] \<and> list_all (\<lambda>b. startswith a b \<longrightarrow> a = b) toks) toks"

definition endswith :: "string \<Rightarrow> string \<Rightarrow> bool" where
  "endswith s suffix = startswith (rev s) (rev suffix)"

definition connected :: "world \<Rightarrow> bool" where
  \<comment> \<open>there is a process handle with an input stream, so a request is written\<close>
  "connected w = (case server_process w of None \<Rightarrow> False | Some p \<Rightarrow> stdin_pipe p)"

definition is_query_call :: "rpc_request \<Rightarrow> bool" where
  \<comment> \<open>a request that invokes the \<open>query\<close> tool\<close>
  "is_query_call r = (req_method r = ''tools/call'' \<and> dict_get (req_params r) ''name'' = JStr ''query'')"

definition tool_call_failed :: "reply list \<Rightarrow> bool" where
  \<comment> \<open>the next exchange brings no response, or a response without a \<open>result\<close> field\<close>
  "tool_call_failed rs =
     (case rs of
        [] \<Rightarrow> True
      | Broken # rest \<Rightarrow> True
      | Eof # rest \<Rightarrow> True
      | Reply response # rest \<Rightarrow> \<not> has_key response ''result'')"

definition canned_calls :: "json list" where
  \<comment> \<open>the parameters of the six tool calls of the canned statistics report, in order\<close>
  "canned_calls =
     map (\<lambda>(tool_name, arguments). JObj [(''name'', JStr tool_name), (''arguments'', arguments)])
       [(''db_info'', JObj []),
        (''list_tables'', JObj []),
        (''query'', query_arguments ''SELECT COUNT(*) as total_sessions FROM sessions''),
        (''query'', query_arguments ''SELECT COUNT(*) as total_messages FROM messages''),
        (''query'', query_arguments recent_activity_sql),
        (''query'', query_arguments active_sessions_sql)]"


text \<open>
  The states the manager can be in: made by \<open>__init__\<close>, then changed by its methods
  (\<open>stop_server\<close> when it returns) and by the subprocess coming to its end, after which
  the event loop may let go of it.
\<close>

inductive reachable :: "world \<Rightarrow> bool" where
  created: "reachable (init rs ls st)"
| started: "reachable w \<Longrightarrow> reachable (snd (start_server l w))"
| stopped: "reachable w \<Longrightarrow> stop_server w = Inr w1 \<Longrightarrow> reachable w1"
| asked: "reachable w \<Longrightarrow> reachable (snd (execute_database_query P user_question w))"
| exited: "reachable w \<Longrightarrow> server_process w = Some p \<Longrightarrow>
     reachable (w\<lparr>server_process := Some (p\<lparr>returncode := Some rc\<rparr>)\<rparr>)"
| let_go: "reachable w \<Longrightarrow> server_process w = Some p \<Longrightarrow> returncode p \<noteq> None \<Longrightarrow>
     reachable (w\<lparr>server_process := Some (p\<lparr>released := True\<rparr>)\<rparr>)"

definition same_manager :: "world \<Rightarrow> world \<Rightarrow> bool" where
  \<comment> \<open>the process handle and the running flag are the same in both\<close>
  "same_manager w w1 \<longleftrightarrow>
     server_process w1 = server_process w \<and> server_running w1 = server_running w"

definition metadata_effect :: "world \<Rightarrow> string option \<times> world \<Rightarrow> bool" where
  \<comment> \<open>what a branch of the metadata handler may do: no question to the LLM, no call of the
      \<open>query\<close> tool, and no empty answer\<close>
  "metadata_effect w r \<longleftrightarrow>
     llm_asked (snd r) = llm_asked w
     \<and> (\<exists>new. sent (snd r) = sent w @ new \<and> (\<forall>x \<in> set new. \<not> is_query_call x))
     \<and> (\<forall>answer. fst r = Some answer \<longrightarrow> answer \<noteq> [])"

section \<open>Example surroundings\<close>

text \<open>
  A reading of \<open>json.loads\<close> that knows four response bodies of the LLM endpoint by
  name: the message content of the first is a fenced statement, that of the second begins
  with the long s (U+017F), that of the third has a dotless i (U+0131) in it, and that of
  the fourth begins with a no-break space (U+00A0).
\<close>

definition example_py :: py where
  "example_py =
     \<lparr>loads =
        (\<lambda>t. case map_of
                  [(''body'', ''```sql'' @ nl @ ''select count(*) from sessions'' @ nl @ ''```''),
                   (''long s'', [CHR 0xC5, CHR 0xBF] @ ''elect 1''),
                   (''dotless i'', ''SELECT '' @ [CHR 0xC4, CHR 0xB1] @ ''nsert FROM t''),
                   (''no-break space'', [CHR 0xC2, CHR 0xA0] @ ''SELECT 1'')] t of
               Some content \<Rightarrow> Inr (JObj [(''message'', JObj [(''content'', JStr content)])])
             | None \<Rightarrow> Inl JSONDecodeError),
      str_other = (\<lambda>v. ''?''),
      str_exn = (\<lambda>e. (case e of DatabaseError m \<Rightarrow> m | OSError m \<Rightarrow> m | _ \<Rightarrow> ''error'')),
      database_name = ''chat_history.db''\<rparr>"

definition example_store :: store where
  "example_store =
     \<lparr>connect_error = None,
      session_count_rows = Inr [[JInt 2]],
      message_count_rows = Inr [[JInt 7]],
      recent_activity_rows = Inr [[JStr ''2024-05-01'', JInt 2]],
      active_sessions_rows = Inr [[JStr ''0123456789abcdef'', JInt 4, JStr ''2024-05-01 10:00:00'']]\<rparr>"

definition broken_store :: store where
  \<comment> \<open>a persistence file without the \<open>sessions\<close> table\<close>
  "broken_store = example_store\<lparr>session_count_rows := Inl (DatabaseError ''no such table: sessions'')\<rparr>"

definition example_world :: "reply list \<Rightarrow> llm_outcome list \<Rightarrow> world" where
  \<comment> \<open>the manager after a successful start, with a live subprocess\<close>
  "example_world rs ls =
     \<lparr>server_process = Some \<lparr>stdin_pipe = True, returncode = None, released = False\<rparr>,
      server_running = True, request_id = 1,
      sent = [], replies = rs, llm_asked = [], llm_answers = ls, persistence = example_store\<rparr>"


definition dead_launch :: launch where
  \<comment> \<open>\<open>npx\<close> is found, the server process is spawned and exits within the two seconds\<close>
  "dead_launch =
     \<lparr>which_npx = Inr 0, spawned = Inr \<lparr>stdin_pipe = True, returncode = Some 1, released = True\<rparr>\<rparr>"

definition odd_tables_reply :: reply where
  \<comment> \<open>a response line whose result has a number where the table names belong\<close>
  "odd_tables_reply =
     Reply (JObj [(''jsonrpc'', JStr ''2.0''), (''id'', JInt 3),
                  (''result'', JObj [(''tables'', JInt 5)])])"

definition tables_reply :: "int \<Rightarrow> reply" where
  \<comment> \<open>a response line with the given id whose result names two tables\<close>
  "tables_reply n =
     Reply (JObj [(''jsonrpc'', JStr ''2.0''), (''id'', JInt n),
                  (''result'', JObj [(''tables'', JArr [JStr ''sessions'', JStr ''messages''])])])"

section \<open>Facts about the string functions\<close>

lemma startswith_iff: "startswith s p \<longleftrightarrow> (\<exists>r. s = p @ r)"
  by (induction s p rule: startswith.induct) auto

lemma contains_iff: "contains s sub \<longleftrightarrow> (\<exists>a b. s = a @ sub @ b)"
proof (induction s)
  case Nil
  then show ?case by auto
next
  case (Cons c cs)
  show ?case
  proof
    assume "contains (c # cs) sub"
    then consider "startswith (c # cs) sub" | "contains cs sub" by auto
    then show "\<exists>a b. c # cs = a @ sub @ b"
    proof cases
      case 1
      then obtain r where "c # cs = sub @ r" by (auto simp: startswith_iff)
      then have "c # cs = [] @ sub @ r" by simp
      then show ?thesis by blast
    next
      case 2
      then obtain a b where "cs = a @ sub @ b" using Cons.IH by blast
      then have "c # cs = (c # a) @ sub @ b" by simp
      then show ?thesis by blast
    qed
  next
    assume "\<exists>a b. c # cs = a @ sub @ b"
    then obtain a b where ab: "c # cs = a @ sub @ b" by blast
    show "contains (c # cs) sub"
    proof (cases a)
      case Nil
      with ab have "startswith (c # cs) sub" by (auto simp: startswith_iff)
      then show ?thesis by simp
    next
      case (Cons x a')
      with ab have "cs = a' @ sub @ b" by simp
      then have "contains cs sub" using Cons.IH by blast
      then show ?thesis by simp
    qed
  qed
qed

lemma lower_append: "lower (a @ b) = lower a @ lower b"
  by (simp add: lower_def)

lemma lower_standby: "lower ''standby'' = ''standby''"
  by (simp add: lower_def lower_char_def)

lemma startswith_take: "startswith s p \<longleftrightarrow> take (length p) s = p"
  by (induction s p rule: startswith.induct) auto

lemma contains_take_drop:
  "contains s sub \<longleftrightarrow> (\<exists>i \<in> {0..length s}. take (length sub) (drop i s) = sub)"
proof (induction s)
  case Nil
  then show ?case by auto
next
  case (Cons c cs)
  have "(\<exists>i \<in> {0..length (c # cs)}. take (length sub) (drop i (c # cs)) = sub)
        \<longleftrightarrow> take (length sub) (c # cs) = sub \<or> (\<exists>i \<in> {0..length cs}. take (length sub) (drop i cs) = sub)"
    (is "?L \<longleftrightarrow> ?A \<or> ?B")
  proof
    assume ?L
    then obtain i where i: "i \<le> length (c # cs)" "take (length sub) (drop i (c # cs)) = sub" by auto
    show "?A \<or> ?B"
    proof (cases i)
      case 0
      with i show ?thesis by simp
    next
      case (Suc j)
      with i have "j \<le> length cs" "take (length sub) (drop j cs) = sub" by auto
      then show ?thesis by auto
    qed
  next
    assume "?A \<or> ?B"
    then show ?L
    proof
      assume ?A
      then have "take (length sub) (drop 0 (c # cs)) = sub" by simp
      then show ?L by (metis atLeastAtMost_iff le0)
    next
      assume ?B
      then obtain j where "j \<le> length cs" "take (length sub) (drop j cs) = sub" by auto
      then have "Suc j \<in> {0..length (c # cs)}" "take (length sub) (drop (Suc j) (c # cs)) = sub" by auto
      then show ?L by blast
    qed
  qed
  with Cons show ?case by (simp add: startswith_take)
qed

lemma find_startswith:
  assumes "find (startswith (c # cs)) toks = Some k" and "[] \<notin> set toks"
  shows "k \<in> set toks \<and> c # cs = k @ drop (length k - 1) cs"
proof -
  from assms(1) have k: "k \<in> set toks" "startswith (c # cs) k"
    by (auto simp: find_Some_iff)
  with assms(2) obtain k' where "k = c # k'"
    by (cases k) auto
  with k show ?thesis
    by (auto simp: startswith_iff)
qed

lemma strip_front_split:
  assumes "[] \<notin> set toks"
  shows "\<exists>ks. set ks \<subseteq> set toks \<and> s = concat ks @ strip_front toks s"
  using assms
proof (induction toks s rule: strip_front.induct)
  case (1 toks)
  have "set [] \<subseteq> set toks \<and> [] = concat [] @ strip_front toks []" by simp
  then show ?case by blast
next
  case (2 toks c cs)
  show ?case
  proof (cases "find (startswith (c # cs)) toks")
    case None
    then have "set [] \<subseteq> set toks \<and> c # cs = concat [] @ strip_front toks (c # cs)" by simp
    then show ?thesis by blast
  next
    case (Some k)
    from "2.IH" [OF Some "2.prems"] obtain ks where
      ks: "set ks \<subseteq> set toks" "drop (length k - 1) cs = concat ks @ strip_front toks (drop (length k - 1) cs)"
      by blast
    from find_startswith [OF Some "2.prems"] have k: "k \<in> set toks" "c # cs = k @ drop (length k - 1) cs"
      by simp_all
    have sf: "strip_front toks (c # cs) = strip_front toks (drop (length k - 1) cs)"
      using Some by simp
    have "c # cs = k @ concat ks @ strip_front toks (drop (length k - 1) cs)"
      using k(2) ks(2) by metis
    then have "c # cs = concat (k # ks) @ strip_front toks (c # cs)"
      unfolding sf by simp
    moreover have "set (k # ks) \<subseteq> set toks"
      using ks(1) k(1) by simp
    ultimately show ?thesis by blast
  qed
qed

lemma prefix_free_find:
  assumes "prefix_free toks" and "k \<in> set toks"
  shows "find (startswith (k @ rest)) toks = Some k"
proof -
  from assms(2) have "startswith (k @ rest) k"
    by (simp add: startswith_iff)
  with assms(2) obtain t where t: "find (startswith (k @ rest)) toks = Some t"
    by (cases "find (startswith (k @ rest)) toks") (auto simp: find_None_iff)
  then have tt: "t \<in> set toks" "startswith (k @ rest) t"
    by (auto simp: find_Some_iff)
  then obtain r where "k @ rest = t @ r"
    by (auto simp: startswith_iff)
  then have "startswith k t \<or> startswith t k"
    by (auto simp: startswith_iff append_eq_append_conv2)
  with assms tt(1) have "t = k"
    by (auto simp: prefix_free_def list_all_iff)
  with t show ?thesis by simp
qed

lemma strip_front_concat:
  assumes "prefix_free toks" and "set ks \<subseteq> set toks"
  shows "strip_front toks (concat ks) = []"
  using assms(2)
proof (induction ks)
  case Nil
  then show ?case by simp
next
  case (Cons k ks)
  then have k: "k \<in> set toks" and IH: "strip_front toks (concat ks) = []"
    by simp_all
  with assms(1) obtain c k' where ck: "k = c # k'"
    by (cases k) (auto simp: prefix_free_def list_all_iff)
  from prefix_free_find [OF assms(1) k, of "concat ks"]
  have "find (startswith (c # k' @ concat ks)) toks = Some k"
    by (simp add: ck)
  then show ?case
    using IH by (simp add: ck)
qed

lemma space_chars_prefix_free: "prefix_free space_chars"
  by code_simp

lemma strip_only_space:
  assumes "set ks \<subseteq> set space_chars"
  shows "strip (concat ks) = []"
  using strip_front_concat [OF space_chars_prefix_free assms]
  by (simp add: strip_def)

lemma strip_empty_bytes:
  assumes "strip q = []"
  shows "set q \<subseteq> set (concat space_chars)"
proof -
  let ?m = "strip_front space_chars q"
  have ne: "[] \<notin> set space_chars" "[] \<notin> set (map rev space_chars)"
    using space_chars_prefix_free by (auto simp: prefix_free_def list_all_iff)
  from strip_front_split [OF ne(1), of q] obtain ks where
    ks: "set ks \<subseteq> set space_chars" "q = concat ks @ ?m"
    by blast
  from assms have "strip_front (map rev space_chars) (rev ?m) = []"
    by (simp add: strip_def)
  with strip_front_split [OF ne(2), of "rev ?m"] obtain ks' where
    ks': "set ks' \<subseteq> set (map rev space_chars)" "rev ?m = concat ks'"
    by auto
  have "set ?m = set (rev ?m)" by simp
  also have "\<dots> \<subseteq> set (concat space_chars)"
  proof -
    have "\<exists>t \<in> set space_chars. set xa = set t" if "xa \<in> set ks'" for xa
      using that ks'(1) by (metis imageE set_rev subsetD set_map)
    then show ?thesis
      unfolding ks'(2) by fastforce
  qed
  finally have "set ?m \<subseteq> set (concat space_chars)" .
  moreover have "set (concat ks) \<subseteq> set (concat space_chars)"
    using ks(1) by auto
  ultimately show ?thesis
    using ks(2) by (metis Un_least set_append)
qed

lemma safety_check_spec: "safety_check s = spec_safe s"
  by (simp add: safety_check_def spec_safe_def spec_begins_with_def spec_contains_def
      startswith_take contains_take_drop)

section \<open>Facts about the formatter and the direct analysis\<close>

lemma format_rows_dicts:
  assumes "extract_query_results result = JArr rows"
  shows "format_query_results P result =
     (if rows = [] then ''No data found.''
      else if length rows = 1 then
        (case py_len (hd rows) of Inl e \<Rightarrow> ''Results available but formatting failed: '' @ str_exn P e
         | Inr m \<Rightarrow> if m = 1 then (case hd rows of JObj [(key, v)] \<Rightarrow> ''**Result:** '' @ py_str P v
                 | _ \<Rightarrow> ''Results available but formatting failed: '' @ str_exn P AttributeError)
              else format_rows P rows)
      else format_rows P rows)"
  using assms
  by (cases rows) (auto simp: format_query_results_def format_try_def Let_def split: sum.splits json.splits list.splits prod.splits)

lemma str_int_2: "str_int 2 = ''2''"
  by code_simp

lemma one_by_one:
  "(\<exists>key v. rows = [JObj [(key, v)]]) \<longleftrightarrow>
     length rows = 1 \<and> is_dict (hd rows) \<and> py_len (hd rows) = Inr 1"
proof
  assume "\<exists>key v. rows = [JObj [(key, v)]]"
  then show "length rows = 1 \<and> is_dict (hd rows) \<and> py_len (hd rows) = Inr 1"
    by auto
next
  assume a: "length rows = 1 \<and> is_dict (hd rows) \<and> py_len (hd rows) = Inr 1"
  then obtain r where r: "rows = [r]"
    by (cases rows) auto
  with a obtain kvs where k: "r = JObj kvs" "length kvs = 1"
    by (cases r) auto
  then obtain kv where "kvs = [kv]"
    by (cases kvs) auto
  with r k show "\<exists>key v. rows = [JObj [(key, v)]]"
    by (cases kv) auto
qed

lemma basic_database_analysis_returns: "\<exists>text. basic_database_analysis P st = Inr text"
  by (simp add: basic_database_analysis_def split: sum.splits)

lemma join_snoc: "xs \<noteq> [] \<Longrightarrow> join sep (xs @ [x]) = join sep xs @ sep @ x"
  by (induction sep xs rule: join.induct) auto

lemma endswith_iff: "endswith s suffix \<longleftrightarrow> (\<exists>pre. s = pre @ suffix)"
proof -
  have "(\<exists>r. rev s = rev suffix @ r) \<longleftrightarrow> (\<exists>pre. s = pre @ suffix)"
  proof
    assume "\<exists>r. rev s = rev suffix @ r"
    then obtain r where "rev s = rev suffix @ r" by blast
    then have "s = rev r @ suffix" by (metis rev_append rev_rev_ident)
    then show "\<exists>pre. s = pre @ suffix" by blast
  next
    assume "\<exists>pre. s = pre @ suffix"
    then obtain pre where "s = pre @ suffix" by blast
    then have "rev s = rev suffix @ rev pre" by simp
    then show "\<exists>r. rev s = rev suffix @ r" by blast
  qed
  then show ?thesis by (simp add: endswith_def startswith_iff)
qed

lemma join_ends: "endswith (join sep ([a, b] @ c @ d @ [m])) m"
proof -
  have "join sep ([a, b] @ c @ d @ [m]) = join sep (([a, b] @ c @ d) @ [m])"
    by simp
  also have "\<dots> = (join sep ([a, b] @ c @ d) @ sep) @ m"
    by (subst join_snoc) simp_all
  finally show ?thesis
    unfolding endswith_iff by blast
qed

lemma basic_try_marker:
  assumes "basic_try P st = Inr report"
  shows "endswith report basic_marker"
  using assms
  by (auto simp: basic_try_def join_ends simp del: append.simps join.simps
      split: option.splits sum.splits)

section \<open>Facts about tool calls\<close>

lemma call_mcp_tool_world:
  "snd (call_mcp_tool P tool_name arguments w) =
     (if connected w
      then w\<lparr>request_id := request_id w + 1,
             sent := sent w @ [tool_request (request_id w + 1) tool_name arguments],
             replies := tl (replies w)\<rparr>
      else w\<lparr>request_id := request_id w + 1\<rparr>)"
  by (auto simp: call_mcp_tool_def get_request_id_def send_mcp_request_def connected_def Let_def
      split: option.splits list.splits reply.splits prod.splits)

lemma connected_after_call [simp]:
  "connected (snd (call_mcp_tool P tool_name arguments w)) = connected w"
  by (simp add: call_mcp_tool_world) (simp add: connected_def)

lemma tool_result_no_result:
  assumes "\<not> has_key response ''result''"
  shows "tool_result P response = Inr JNull \<or> (\<exists>e. tool_result P response = Inl e)"
  using assms
  by (cases response) (auto simp: tool_result_def has_key_def split: sum.splits bool.splits)

lemma call_mcp_tool_failed:
  assumes "tool_call_failed (replies w)"
  shows "fst (call_mcp_tool P tool_name arguments w) = JNull"
proof -
  have none: "tool_result P JNull = Inr JNull"
    by (simp add: tool_result_def)
  have noresult: "(case tool_result P response of Inl e \<Rightarrow> JNull | Inr v \<Rightarrow> v) = JNull"
    if "\<not> has_key response ''result''" for response
    using tool_result_no_result [OF that, of P] by auto
  show ?thesis
    using assms none noresult
    by (auto simp: call_mcp_tool_def get_request_id_def send_mcp_request_def tool_call_failed_def Let_def
        split: option.splits list.splits reply.splits prod.splits)
qed

lemma tool_result_depends_on_result:
  assumes "map_of kvs' ''result'' = map_of kvs ''result''"
  shows "tool_result P (JObj kvs') = tool_result P (JObj kvs)"
proof -
  have mem: "(''result'' \<in> set (map fst kvs')) = (''result'' \<in> set (map fst kvs))"
    using assms by (metis map_of_eq_None_iff set_map)
  have get: "py_getitem (JObj kvs') ''result'' = py_getitem (JObj kvs) ''result''"
    using assms by simp
  show ?thesis
  proof (cases "''result'' \<in> set (map fst kvs)")
    case True
    with mem have "kvs \<noteq> []" "kvs' \<noteq> []" by auto
    with True mem get show ?thesis
      by (simp add: tool_result_def del: py_getitem.simps)
  next
    case False
    with mem show ?thesis
      by (simp add: tool_result_def)
  qed
qed

lemma call_mcp_tool_llm [simp]:
  "llm_asked (snd (call_mcp_tool P tool_name arguments w)) = llm_asked w"
  by (simp add: call_mcp_tool_world)

lemma call_mcp_tool_sent:
  "sent (snd (call_mcp_tool P tool_name arguments w)) =
     sent w @ (if connected w then [tool_request (request_id w + 1) tool_name arguments] else [])"
  by (simp add: call_mcp_tool_world)

lemma call_mcp_tool_request_id [simp]:
  "request_id (snd (call_mcp_tool P tool_name arguments w)) = request_id w + 1"
  by (simp add: call_mcp_tool_world)

lemma call_mcp_tool_manager [simp]:
  "server_running (snd (call_mcp_tool P tool_name arguments w)) = server_running w"
  "server_process (snd (call_mcp_tool P tool_name arguments w)) = server_process w"
  "persistence (snd (call_mcp_tool P tool_name arguments w)) = persistence w"
  by (simp_all add: call_mcp_tool_world)

lemma stats_llm: "llm_asked (snd (get_mcp_database_stats P w)) = llm_asked w"
  by (simp add: get_mcp_database_stats_def split_def Let_def split: sum.splits)

lemma req_params_tool_request [simp]:
  "req_params (tool_request n tool_name arguments) = JObj [(''name'', JStr tool_name), (''arguments'', arguments)]"
  by (simp add: tool_request_def)

lemma stats_sent:
  "\<exists>new. sent (snd (get_mcp_database_stats P w)) = sent w @ new
         \<and> map req_params new = take (length new) canned_calls"
proof (cases "connected w")
  case False
  then have "sent (snd (get_mcp_database_stats P w)) = sent w @ []"
    by (simp add: get_mcp_database_stats_def split_def Let_def call_mcp_tool_sent split: sum.splits)
  then show ?thesis by (metis list.simps(8) list.size(3) take_0)
next
  case True
  then show ?thesis
    by (simp add: get_mcp_database_stats_def split_def Let_def call_mcp_tool_sent canned_calls_def
        split: sum.splits)
qed

section \<open>Facts about the router\<close>

lemma only_space_is_blank:
  assumes "user_question = None \<or> (\<exists>ks. user_question = Some (concat ks) \<and> set ks \<subseteq> set space_chars)"
  shows "is_blank user_question"
  using assms strip_only_space
  by (cases user_question) (auto simp: is_blank_def)

lemma contains_hd:
  assumes "contains s (c # k)"
  shows "c \<in> set s"
  using assms unfolding contains_iff by auto

lemma lower_char_space: "d \<in> set (concat space_chars) \<Longrightarrow> lower_char d = d"
proof -
  have "list_all (\<lambda>d. lower_char d = d) (concat space_chars)"
    by code_simp
  then show "d \<in> set (concat space_chars) \<Longrightarrow> lower_char d = d"
    unfolding list_all_iff by blast
qed

lemma metadata_keywords_start:
  "list_all (\<lambda>k. k \<noteq> [] \<and> hd k \<notin> set (concat space_chars)) metadata_keywords"
  by code_simp

lemma metadata_not_blank:
  assumes "is_metadata_query q"
  shows "\<not> is_blank (Some q)"
proof
  assume "is_blank (Some q)"
  then have spaces: "set q \<subseteq> set (concat space_chars)"
    using strip_empty_bytes [of q] by (auto simp: is_blank_def)
  from assms obtain k where k: "k \<in> set metadata_keywords" "contains (lower q) k"
    by (auto simp: is_metadata_query_def list_ex_iff)
  from k(1) metadata_keywords_start have "k \<noteq> []" "hd k \<notin> set (concat space_chars)"
    by (auto simp: list_all_iff)
  then obtain c k' where ck: "k = c # k'" "c \<notin> set (concat space_chars)"
    by (cases k) auto
  with k(2) have "c \<in> set (lower q)"
    using contains_hd by blast
  then obtain d where d: "d \<in> set q" "c = lower_char d"
    by (auto simp: lower_def)
  with spaces have "d \<in> set (concat space_chars)"
    by blast
  with d ck(2) show False
    using lower_char_space by force
qed

lemma generate_sql_checked:
  assumes "fst (generate_sql_from_question P question w) = Some sql"
  shows "safety_check sql"
  using assms
  by (auto simp: generate_sql_from_question_def sql_from_reply_def Let_def
      split: list.splits llm_outcome.splits sum.splits json.splits if_splits)

lemma safety_check_nonempty: "safety_check sql \<Longrightarrow> sql \<noteq> []"
  by (auto simp: safety_check_def)

lemma generate_sql_world:
  "snd (generate_sql_from_question P question w) =
     w\<lparr>llm_asked := llm_asked w @ [question], llm_answers := tl (llm_answers w)\<rparr>"
  by (auto simp: generate_sql_from_question_def Let_def
      split: list.splits llm_outcome.splits sum.splits)

lemma not_query_call [simp]:
  "\<not> is_query_call (tool_request n ''list_tables'' a)"
  "\<not> is_query_call (tool_request n ''db_info'' a)"
  by (simp_all add: is_query_call_def tool_request_def dict_get_def)

lemma answer_header_nonempty [simp]: "answer_header q @ rest \<noteq> []"
  by (simp add: answer_header_def bar_chart_def)

lemma table_count_answer_effect: "metadata_effect w (table_count_answer P q w)"
  by (auto simp: metadata_effect_def table_count_answer_def Let_def split_def call_mcp_tool_sent
      split: sum.splits)

lemma table_list_answer_effect: "metadata_effect w (table_list_answer P q w)"
  by (auto simp: metadata_effect_def table_list_answer_def Let_def split_def call_mcp_tool_sent
      split: sum.splits)

lemma db_info_answer_effect: "metadata_effect w (db_info_answer P q w)"
  by (auto simp: metadata_effect_def db_info_answer_def Let_def split_def call_mcp_tool_sent
      split: sum.splits)

lemma handle_metadata_query_effect: "metadata_effect w (handle_metadata_query P q w)"
  using table_count_answer_effect table_list_answer_effect db_info_answer_effect
  by (simp add: handle_metadata_query_def) (simp add: metadata_effect_def)

section \<open>Facts about the states of the manager\<close>

lemma same_manager_refl [simp]: "same_manager w w"
  by (simp add: same_manager_def)

lemma same_manager_trans: "same_manager w w1 \<Longrightarrow> same_manager w1 w2 \<Longrightarrow> same_manager w w2"
  by (simp add: same_manager_def)

lemma same_manager_call: "same_manager w (snd (call_mcp_tool P tool_name arguments w))"
  by (simp add: same_manager_def)

lemma same_manager_generate: "same_manager w (snd (generate_sql_from_question P question w))"
  by (simp add: same_manager_def generate_sql_world)

lemma same_manager_metadata: "same_manager w (snd (handle_metadata_query P q w))"
  by (simp add: same_manager_def handle_metadata_query_def table_count_answer_def
      table_list_answer_def db_info_answer_def Let_def split_def split: sum.splits)

lemma same_manager_sql_path: "same_manager w (snd (sql_path P q w))"
  using same_manager_generate [of w P q]
  by (simp add: same_manager_def sql_path_def Let_def split_def)

lemma same_manager_natural: "same_manager w (snd (handle_natural_language_query P q w))"
  using same_manager_metadata [of w P q] same_manager_sql_path [of w P q]
    same_manager_sql_path [of "snd (handle_metadata_query P q w)" P q]
  by (auto simp: handle_natural_language_query_def Let_def split_def intro: same_manager_trans)

lemma same_manager_stats: "same_manager w (snd (get_mcp_database_stats P w))"
  by (simp add: same_manager_def get_mcp_database_stats_def Let_def split_def split: sum.splits)

lemma same_manager_stats_report: "same_manager w (snd (stats_report P w))"
  using same_manager_stats [of w P]
  by (auto simp: stats_report_def split: prod.splits sum.splits)

lemma same_manager_execute_try: "same_manager w (snd (execute_try P user_question w))"
  using same_manager_stats_report [of w P] same_manager_natural [of w P "the user_question"]
    same_manager_stats_report [of "snd (handle_natural_language_query P (the user_question) w)" P]
  by (auto simp: execute_try_def Let_def split_def intro: same_manager_trans)

lemma same_manager_execute: "same_manager w (snd (execute_database_query P user_question w))"
  using same_manager_execute_try [of w P user_question]
  by (auto simp: execute_database_query_def same_manager_def split: prod.splits sum.splits)

lemma same_manager_initialize: "same_manager w (snd (initialize_mcp_connection w))"
  by (simp add: same_manager_def initialize_mcp_connection_def get_request_id_def
      send_mcp_request_def Let_def split_def split: option.splits list.splits reply.splits)

text \<open>
  In every state the manager can be in, the running flag is set only when there is a
  process handle. So \<open>stop_server\<close> called twice in a row returns both times and leaves the
  flag unset, as long as the handle, if there is one, is of a process that has not been
  let go of.
\<close>

lemma running_has_handle:
  assumes "reachable w"
  shows "server_running w \<longrightarrow> server_process w \<noteq> None"
  using assms
proof (induction rule: reachable.induct)
  case (created rs ls st)
  then show ?case by (simp add: init_def)
next
  case (started w l)
  then show ?case
    using same_manager_initialize [of "w\<lparr>server_process := Some p\<rparr>" for p]
    by (auto simp: start_server_def Let_def split_def same_manager_def split: sum.splits if_splits)
next
  case (stopped w w1)
  then show ?case
    by (auto simp: stop_server_def split: option.splits sum.splits)
next
  case (asked w P user_question)
  then show ?case
    using same_manager_execute [of w P user_question] by (simp add: same_manager_def)
next
  case (exited w p rc)
  then show ?case by simp
next
  case (let_go w p)
  then show ?case by simp
qed

lemma stop_server_twice:
  assumes "reachable w"
      and "\<forall>p. server_process w = Some p \<longrightarrow> \<not> released p"
  shows "\<exists>w1. stop_server w = Inr w1 \<and> stop_server w1 = Inr w1 \<and> \<not> server_running w1"
  using running_has_handle [OF assms(1)] assms(2)
  by (cases "server_process w") (auto simp: stop_server_def terminate_def)

section \<open>Claims\<close>

text \<open>
  C1. \<open>_generate_sql_from_question\<close> returns a statement exactly when the LLM answered with
  status 200 and a text, the statement is that text after trimming and code-fence
  stripping, and it begins case-insensitively with \<open>SELECT\<close>, contains none of \<open>DROP\<close>,
  \<open>DELETE\<close>, \<open>UPDATE\<close>, \<open>INSERT\<close> case-insensitively, and is not the text \<open>INVALID\<close>. In
  every other case, so on any violation, it returns \<open>None\<close>. (Case is ignored as Python's
  upper-casing ignores it, so a statement that begins with a long s passes and one with
  a dotless i before \<open>nsert\<close> does not; trimming removes Python's white space, a no-break
  space included.)
\<close>

theorem generate_sql_safety_filter:
  "fst (generate_sql_from_question P question w) = Some stmt \<longleftrightarrow>
     (\<exists>body rest content.
        llm_answers w = LlmResponse 200 body # rest
        \<and> parse_ollama_response P body = Inr (JStr content)
        \<and> stmt = strip_fences (strip content)
        \<and> spec_safe stmt)"
  by (auto simp: generate_sql_from_question_def sql_from_reply_def Let_def safety_check_spec
      split: list.splits llm_outcome.splits sum.splits json.splits if_splits)

theorem generate_sql_safety_filter_witness:
  "fst (generate_sql_from_question example_py ''how many sessions''
          (example_world [] [LlmResponse 200 ''body''])) = Some ''select count(*) from sessions''
   \<and> spec_safe ''select count(*) from sessions''
   \<and> fst (generate_sql_from_question example_py ''how many sessions''
          (example_world [] [LlmResponse 200 ''long s''])) = Some ([CHR 0xC5, CHR 0xBF] @ ''elect 1'')
   \<and> fst (generate_sql_from_question example_py ''how many sessions''
          (example_world [] [LlmResponse 200 ''dotless i''])) = None
   \<and> fst (generate_sql_from_question example_py ''how many sessions''
          (example_world [] [LlmResponse 200 ''no-break space''])) = Some ''SELECT 1''
   \<and> fst (generate_sql_from_question example_py ''how many sessions''
          (example_world [] [LlmResponse 500 ''body''])) = None"
proof -
  have yes: "fst (generate_sql_from_question example_py ''how many sessions''
          (example_world [] [LlmResponse 200 ''body''])) = Some ''select count(*) from sessions''"
    by code_simp
  from generate_sql_safety_filter [THEN iffD1, OF yes]
  have safe: "spec_safe ''select count(*) from sessions''" by blast
  have long_s: "fst (generate_sql_from_question example_py ''how many sessions''
          (example_world [] [LlmResponse 200 ''long s''])) = Some ([CHR 0xC5, CHR 0xBF] @ ''elect 1'')"
    by code_simp
  have dotless: "fst (generate_sql_from_question example_py ''how many sessions''
          (example_world [] [LlmResponse 200 ''dotless i''])) = None"
    by code_simp
  have nbsp: "fst (generate_sql_from_question example_py ''how many sessions''
          (example_world [] [LlmResponse 200 ''no-break space''])) = Some ''SELECT 1''"
    by code_simp
  have no: "fst (generate_sql_from_question example_py ''how many sessions''
          (example_world [] [LlmResponse 500 ''body''])) = None"
    by code_simp
  from yes safe long_s dotless nbsp no show ?thesis by simp
qed

text \<open>
  C2. For every question and every outcome of the subprocess, the LLM and the persistence
  file, exceptions of any of them included, \<open>execute_database_query\<close> returns a text and
  raises nothing to its caller. (Every call to a collaborator is taken to end; a read that
  never ends is not an outcome of the model.)
\<close>

theorem execute_database_query_never_raises:
  "\<exists>text. fst (execute_database_query P user_question w) = Inr text"
proof (cases "server_running w")
  case False
  then show ?thesis
    using basic_database_analysis_returns [of P "persistence w"]
    by (simp add: execute_database_query_def)
next
  case True
  obtain r w1 where r: "execute_try P user_question w = (r, w1)"
    by (cases "execute_try P user_question w")
  show ?thesis
  proof (cases r)
    case (Inl e)
    with True r show ?thesis
      using basic_database_analysis_returns [of P "persistence w1"]
      by (simp add: execute_database_query_def)
  next
    case (Inr t)
    with True r show ?thesis
      by (simp add: execute_database_query_def)
  qed
qed

theorem execute_database_query_never_raises_witness:
  "\<exists>text. fst (execute_database_query example_py (Some ''how many sessions do I have'')
             (example_world [Broken] [LlmRaised])) = Inr text"
  by (rule execute_database_query_never_raises)

text \<open>
  C3, as stated, fails: a response line tagged with id 999 is accepted and unwrapped as the
  answer to the request sent with id 2.
\<close>

theorem response_id_mismatch_counterexample:
  "map req_id (sent (snd (call_mcp_tool example_py ''list_tables'' (JObj [])
                            (example_world [tables_reply 999] [])))) = [2]
   \<and> fst (call_mcp_tool example_py ''list_tables'' (JObj []) (example_world [tables_reply 999] []))
       = JObj [(''tables'', JArr [JStr ''sessions'', JStr ''messages''])]"
  by code_simp

text \<open>
  C3, amended. Every tool-call request is written with the next value of the request
  counter as its id, and the client takes the next line read from the subprocess as the
  answer to it: what it unwraps depends only on the \<open>result\<close> field of that line, not on
  its id, so a response that carries another id is accepted all the same.
\<close>

theorem call_mcp_tool_ignores_response_id:
  assumes "connected w"
      and "replies w = Reply (JObj kvs) # rest"
      and "map_of kvs' ''result'' = map_of kvs ''result''"
  shows "sent (snd (call_mcp_tool P tool_name arguments w))
           = sent w @ [tool_request (request_id w + 1) tool_name arguments]
       \<and> fst (call_mcp_tool P tool_name arguments (w\<lparr>replies := Reply (JObj kvs') # rest\<rparr>))
           = fst (call_mcp_tool P tool_name arguments w)"
  using assms tool_result_depends_on_result [OF assms(3), of P]
  by (auto simp: call_mcp_tool_def get_request_id_def send_mcp_request_def connected_def Let_def
      split: option.splits)

theorem call_mcp_tool_ignores_response_id_witness:
  "connected (example_world [tables_reply 999] [])
   \<and> sent (snd (call_mcp_tool example_py ''list_tables'' (JObj []) (example_world [tables_reply 999] [])))
       = [tool_request 2 ''list_tables'' (JObj [])]
   \<and> fst (call_mcp_tool example_py ''list_tables'' (JObj []) (example_world [tables_reply 2] []))
       = fst (call_mcp_tool example_py ''list_tables'' (JObj []) (example_world [tables_reply 999] []))"
proof -
  have c: "connected (example_world [tables_reply 999] [])"
    by (simp add: connected_def example_world_def)
  have r: "replies (example_world [tables_reply 999] []) =
      Reply (JObj [(''jsonrpc'', JStr ''2.0''), (''id'', JInt 999),
                   (''result'', JObj [(''tables'', JArr [JStr ''sessions'', JStr ''messages''])])]) # []"
    by (simp add: example_world_def tables_reply_def)
  have m: "map_of [(''jsonrpc'', JStr ''2.0''), (''id'', JInt 2),
                   (''result'', JObj [(''tables'', JArr [JStr ''sessions'', JStr ''messages''])])] ''result''
         = map_of [(''jsonrpc'', JStr ''2.0''), (''id'', JInt 999),
                   (''result'', JObj [(''tables'', JArr [JStr ''sessions'', JStr ''messages''])])] ''result''"
    by simp
  from c call_mcp_tool_ignores_response_id [OF c r m, of example_py "''list_tables''" "JObj []"]
  show ?thesis
    by (simp add: example_world_def tables_reply_def)
qed

text \<open>
  C4, as stated, fails: SQL generation succeeds, the query tool call brings no response,
  and the router answers with the no-results text after that one request, without going
  on to the canned statistics report.
\<close>

theorem failed_query_counterexample:
  "tool_call_failed [Eof]
   \<and> fst (execute_database_query example_py (Some ''how many sessions do I have'')
            (example_world [Eof] [LlmResponse 200 ''body'']))
       = Inr (no_results_message ''how many sessions do I have'')
   \<and> length (sent (snd (execute_database_query example_py (Some ''how many sessions do I have'')
                          (example_world [Eof] [LlmResponse 200 ''body'']))))
       = 1"
  by code_simp

text \<open>
  C4, amended. For every question whose SQL generation succeeds but whose query tool call
  fails (the response is absent or has no \<open>result\<close> field), the router answers with the
  explicit no-results text for that question, the one it also gives for an empty result,
  and does not go on to the canned statistics report: the query request is the last one
  written.
\<close>

theorem failed_query_reported_as_no_results:
  assumes "server_running w"
      and "is_metadata_query q \<longrightarrow> \<not> is_answer (fst (handle_metadata_query P q w))"
      and "w0 = (if is_metadata_query q then snd (handle_metadata_query P q w) else w)"
      and "\<not> is_blank (Some q)"
      and "generate_sql_from_question P q w0 = (Some sql, w1)"
      and "tool_call_failed (replies w1)"
  shows "execute_database_query P (Some q) w =
           (Inr (no_results_message q), snd (call_mcp_tool P ''query'' (query_arguments sql) w1))
       \<and> sent (snd (execute_database_query P (Some q) w)) =
           sent w1 @ (if connected w1 then [tool_request (request_id w1 + 1) ''query'' (query_arguments sql)] else [])"
proof -
  have sql: "is_answer (Some sql)"
    using generate_sql_checked [of P q w0 sql] safety_check_nonempty assms(5)
    by (simp add: is_answer_def)
  have failed: "\<not> truthy (fst (call_mcp_tool P ''query'' (query_arguments sql) w1))"
    using call_mcp_tool_failed [OF assms(6)] by simp
  have path: "sql_path P q w0 =
      (Some (no_results_message q), snd (call_mcp_tool P ''query'' (query_arguments sql) w1))"
    using sql failed assms(5) by (simp add: sql_path_def split_def Let_def)
  have "handle_natural_language_query P q w =
      (Some (no_results_message q), snd (call_mcp_tool P ''query'' (query_arguments sql) w1))"
    using assms(2,3) path
    by (cases "is_metadata_query q") (simp_all add: handle_natural_language_query_def split_def Let_def)
  moreover have "is_answer (Some (no_results_message q))"
    by (simp add: is_answer_def no_results_message_def cross_mark_def)
  ultimately have "execute_database_query P (Some q) w =
           (Inr (no_results_message q), snd (call_mcp_tool P ''query'' (query_arguments sql) w1))"
    using assms(1,4) by (simp add: execute_database_query_def execute_try_def)
  then show ?thesis
    by (simp add: call_mcp_tool_sent)
qed

theorem failed_query_reported_as_no_results_witness:
  "server_running (example_world [Eof] [LlmResponse 200 ''body''])
   \<and> tool_call_failed (replies (snd (generate_sql_from_question example_py ''how many sessions do I have''
                                      (example_world [Eof] [LlmResponse 200 ''body'']))))
   \<and> fst (execute_database_query example_py (Some ''how many sessions do I have'')
            (example_world [Eof] [LlmResponse 200 ''body'']))
       = Inr (no_results_message ''how many sessions do I have'')"
proof -
  let ?w = "example_world [Eof] [LlmResponse 200 ''body'']"
  let ?q = "''how many sessions do I have''"
  let ?w1 = "snd (generate_sql_from_question example_py ?q ?w)"
  have run: "server_running ?w"
    by (simp add: example_world_def)
  have nometa: "\<not> is_metadata_query ?q"
    by code_simp
  then have meta: "is_metadata_query ?q \<longrightarrow> \<not> is_answer (fst (handle_metadata_query example_py ?q ?w))"
    and w0: "?w = (if is_metadata_query ?q then snd (handle_metadata_query example_py ?q ?w) else ?w)"
    by simp_all
  have blank: "\<not> is_blank (Some ?q)"
    by code_simp
  have "fst (generate_sql_from_question example_py ?q ?w) = Some ''select count(*) from sessions''"
    by code_simp
  then have gen: "generate_sql_from_question example_py ?q ?w = (Some ''select count(*) from sessions'', ?w1)"
    by (metis prod.collapse)
  have failed: "tool_call_failed (replies ?w1)"
    by (simp add: generate_sql_world example_world_def tool_call_failed_def)
  from run failed failed_query_reported_as_no_results [OF run meta w0 blank gen failed]
  show ?thesis by simp
qed

text \<open>
  C5. For a query result whose rows are mappings, \<open>_format_query_results\<close> renders no row
  as \<open>No data found.\<close>; exactly one row with exactly one column as the labelled scalar of
  its value; and any other shape as one bullet line for each of the first 10 rows, in
  the order received, each the comma-joined \<open>key: value\<close> pairs of the row in their
  order, followed when there are more than 10 rows by a line with the count of the rest
  (for 12 rows: 10 bullet lines and the line for 2 more).
\<close>

theorem format_query_results_shapes:
  assumes "extract_query_results result = JArr rows"
      and "\<forall>row \<in> set rows. is_dict row"
  shows "(rows = [] \<longrightarrow> format_query_results P result = ''No data found.'')
       \<and> (\<forall>key v. rows = [JObj [(key, v)]] \<longrightarrow>
             format_query_results P result = ''**Result:** '' @ py_str P v)
       \<and> (rows \<noteq> [] \<and> (\<forall>key v. rows \<noteq> [JObj [(key, v)]]) \<longrightarrow>
             format_query_results P result =
               join nl (map (format_row P) (take 10 rows)
                        @ (if 10 < length rows
                           then [''  ... and '' @ str_int (int (length rows) - 10) @ '' more rows'']
                           else [])))
       \<and> (length rows = 12 \<longrightarrow>
             format_query_results P result =
               join nl (map (format_row P) (take 10 rows) @ [''  ... and 2 more rows'']))
       \<and> (\<forall>kvs. format_row P (JObj kvs) =
             ''  '' @ bullet @ '' '' @ join '', '' (map (\<lambda>kv. fst kv @ '': '' @ py_str P (snd kv)) kvs))"
proof -
  note f = format_rows_dicts [OF assms(1), of P]
  have empty: "rows = [] \<longrightarrow> format_query_results P result = ''No data found.''"
    using f by simp
  have scalar: "\<forall>key v. rows = [JObj [(key, v)]] \<longrightarrow>
             format_query_results P result = ''**Result:** '' @ py_str P v"
    using f by simp
  have other: "format_query_results P result = format_rows P rows"
    if "rows \<noteq> []" "\<forall>key v. rows \<noteq> [JObj [(key, v)]]"
  proof (cases "length rows = 1")
    case False
    with that f show ?thesis by simp
  next
    case True
    with that(1) have d: "is_dict (hd rows)"
      using assms(2) by (cases rows) auto
    then obtain kvs where kvs: "hd rows = JObj kvs"
      by (cases "hd rows") auto
    with True d that(2) have "length kvs \<noteq> 1"
      using one_by_one [of rows] by auto
    with True kvs that(1) f show ?thesis by simp
  qed
  have twelve: "format_query_results P result =
               join nl (map (format_row P) (take 10 rows) @ [''  ... and 2 more rows''])"
    if "length rows = 12"
  proof -
    from that have "rows \<noteq> []" "\<forall>key v. rows \<noteq> [JObj [(key, v)]]" by auto
    then have "format_query_results P result = format_rows P rows" by (rule other)
    with that show ?thesis by (simp add: format_rows_def str_int_2)
  qed
  have row: "\<forall>kvs. format_row P (JObj kvs) =
             ''  '' @ bullet @ '' '' @ join '', '' (map (\<lambda>kv. fst kv @ '': '' @ py_str P (snd kv)) kvs)"
    by (simp add: format_row_def split_def)
  from empty scalar other twelve row show ?thesis
    by (simp add: format_rows_def)
qed

theorem format_query_results_shapes_witness:
  "extract_query_results (JObj [(''results'', JArr [JObj [(''total'', JInt 5)]])])
     = JArr [JObj [(''total'', JInt 5)]]
   \<and> format_query_results example_py (JObj [(''results'', JArr [JObj [(''total'', JInt 5)]])])
     = ''**Result:** 5''"
proof -
  have e: "extract_query_results (JObj [(''results'', JArr [JObj [(''total'', JInt 5)]])])
     = JArr [JObj [(''total'', JInt 5)]]"
    by (simp add: extract_query_results_def)
  have d: "\<forall>row \<in> set [JObj [(''total'', JInt 5)]]. is_dict row"
    by simp
  have five: "py_str example_py (JInt 5) = ''5''"
    by code_simp
  from format_query_results_shapes [OF e d, of example_py] five e
  show ?thesis by simp
qed

text \<open>
  C6, as stated, fails: the subprocess is not running and the persistence file has no
  \<open>sessions\<close> table; the text returned is the error text, which does not end with the
  degraded-mode marker.
\<close>

theorem not_running_marker_counterexample:
  "\<not> server_running (init [] [] broken_store)
   \<and> fst (execute_database_query example_py (Some ''how many sessions do I have'')
            (init [] [] broken_store))
       = Inr ''Error analyzing database: no such table: sessions''
   \<and> \<not> endswith ''Error analyzing database: no such table: sessions'' basic_marker"
  by code_simp

text \<open>
  C6, amended. Whenever the subprocess is not running, \<open>execute_database_query\<close> returns
  for every question what the direct-persistence analysis returns, and leaves the manager
  and its surroundings as they were. When direct access succeeds, that report ends with
  the degraded-mode marker line; when direct access raises, the text returned is
  \<open>Error analyzing database:\<close> followed by the text of the exception.
\<close>

theorem not_running_gives_basic_analysis:
  assumes "\<not> server_running w"
  shows "execute_database_query P user_question w = (basic_database_analysis P (persistence w), w)
     \<and> (\<forall>report. basic_try P (persistence w) = Inr report \<longrightarrow>
           fst (execute_database_query P user_question w) = Inr report \<and> endswith report basic_marker)
     \<and> (\<forall>e. basic_try P (persistence w) = Inl e \<longrightarrow>
           fst (execute_database_query P user_question w) = Inr (''Error analyzing database: '' @ str_exn P e))"
  using assms basic_try_marker
  by (auto simp: execute_database_query_def basic_database_analysis_def)

theorem not_running_gives_basic_analysis_witness:
  "\<not> server_running (init [] [] example_store)
   \<and> (\<exists>report. fst (execute_database_query example_py (Some ''how many sessions do I have'')
                      (init [] [] example_store)) = Inr report
               \<and> endswith report basic_marker)"
proof -
  let ?w = "init [] [] example_store"
  have nr: "\<not> server_running ?w"
    by (simp add: init_def)
  have "case basic_try example_py (persistence ?w) of Inr report \<Rightarrow> True | Inl e \<Rightarrow> False"
    by code_simp
  then obtain report where "basic_try example_py (persistence ?w) = Inr report"
    by (cases "basic_try example_py (persistence ?w)") auto
  with nr not_running_gives_basic_analysis [OF nr, of example_py "Some ''how many sessions do I have''"]
  show ?thesis by blast
qed

text \<open>
  C7. For every question that matches the metadata keywords and for which the metadata
  handler produces an answer, the router returns that answer, and on the way no question
  is sent to the LLM and no request to the \<open>query\<close> tool is written.
\<close>

theorem metadata_answer_skips_sql_path:
  assumes "is_metadata_query q"
      and "handle_metadata_query P q w = (Some answer, w1)"
  shows "handle_natural_language_query P q w = (Some answer, w1)
       \<and> (server_running w \<longrightarrow> execute_database_query P (Some q) w = (Inr answer, w1))
       \<and> llm_asked w1 = llm_asked w
       \<and> (\<exists>new. sent w1 = sent w @ new \<and> (\<forall>r \<in> set new. \<not> is_query_call r))"
proof -
  have eff: "metadata_effect w (Some answer, w1)"
    using handle_metadata_query_effect [of w P q] assms(2) by simp
  then have ans: "is_answer (Some answer)"
    by (simp add: is_answer_def metadata_effect_def)
  have nl: "handle_natural_language_query P q w = (Some answer, w1)"
    using assms ans by (simp add: handle_natural_language_query_def)
  have "execute_database_query P (Some q) w = (Inr answer, w1)" if "server_running w"
    using that nl ans metadata_not_blank [OF assms(1)]
    by (simp add: execute_database_query_def execute_try_def)
  moreover from eff
  have "llm_asked w1 = llm_asked w"
    and "\<exists>new. sent w1 = sent w @ new \<and> (\<forall>r \<in> set new. \<not> is_query_call r)"
    by (simp_all add: metadata_effect_def)
  ultimately show ?thesis
    using nl by blast
qed

theorem metadata_answer_skips_sql_path_witness:
  "is_metadata_query ''What tables exist?''
   \<and> is_answer (fst (handle_metadata_query example_py ''What tables exist?''
                      (example_world [tables_reply 2] [LlmResponse 200 ''body''])))
   \<and> handle_natural_language_query example_py ''What tables exist?''
         (example_world [tables_reply 2] [LlmResponse 200 ''body''])
       = handle_metadata_query example_py ''What tables exist?''
           (example_world [tables_reply 2] [LlmResponse 200 ''body''])
   \<and> llm_asked (snd (handle_natural_language_query example_py ''What tables exist?''
                       (example_world [tables_reply 2] [LlmResponse 200 ''body'']))) = []"
proof -
  let ?w = "example_world [tables_reply 2] [LlmResponse 200 ''body'']"
  let ?q = "''What tables exist?''"
  have meta: "is_metadata_query ?q"
    by code_simp
  have ans: "is_answer (fst (handle_metadata_query example_py ?q ?w))"
    by code_simp
  then obtain answer where "fst (handle_metadata_query example_py ?q ?w) = Some answer"
    by (cases "fst (handle_metadata_query example_py ?q ?w)") (auto simp: is_answer_def)
  then have h: "handle_metadata_query example_py ?q ?w
      = (Some answer, snd (handle_metadata_query example_py ?q ?w))"
    by (metis prod.collapse)
  have "llm_asked ?w = []"
    by (simp add: example_world_def)
  with meta ans h metadata_answer_skips_sql_path [OF meta h]
  show ?thesis by simp
qed

text \<open>
  C8. \<open>stop_server\<close> is to produce no error from any state, also after the process has
  ended. The code calls \<open>terminate()\<close> whenever a process handle exists and catches
  nothing: when \<open>npx\<close> is found and the spawned server exits within the two seconds of
  waiting, \<open>start_server\<close> keeps the handle, and the first \<open>stop_server\<close> after it raises
  \<open>ProcessLookupError\<close>.
\<close>

theorem stop_server_raises_after_exit:
  "stop_server (snd (start_server dead_launch (init rs ls st))) = Inl ProcessLookupError"
  by (simp add: start_server_def dead_launch_def init_def stop_server_def terminate_def)

text \<open>
  C9. \<open>is_database_query\<close> matches its keywords as raw substrings of the lowercased
  message, not as whole words: it is true exactly when some keyword occurs somewhere in
  the lowercased message, so it is true for every message with \<open>standby\<close> in it (through
  the keyword \<open>db\<close>) and false only when no keyword occurs as a substring.
\<close>

theorem is_database_query_substring:
  "(is_database_query message \<longleftrightarrow>
      (\<exists>k \<in> set db_keywords. \<exists>a b. lower message = a @ k @ b))
   \<and> is_database_query (pre @ ''standby'' @ post)"
proof
  show iff: "is_database_query message \<longleftrightarrow>
      (\<exists>k \<in> set db_keywords. \<exists>a b. lower message = a @ k @ b)" for message
    by (simp add: is_database_query_def list_ex_iff contains_iff)
  have "lower (pre @ ''standby'' @ post) = (lower pre @ ''stan'') @ ''db'' @ (''y'' @ lower post)"
    by (simp add: lower_def lower_char_def)
  moreover have "''db'' \<in> set db_keywords"
    by (simp add: db_keywords_def)
  ultimately show "is_database_query (pre @ ''standby'' @ post)"
    unfolding iff by blast
qed

theorem is_database_query_substring_witness:
  "is_database_query ''Put the server on standby''
   \<and> (\<exists>k \<in> set db_keywords. \<exists>a b. lower ''Put the server on standby'' = a @ k @ b)
   \<and> \<not> is_database_query ''Hello there''"
proof -
  have yes: "is_database_query (''Put the server on '' @ ''standby'' @ [])"
    using is_database_query_substring [of "''x''" "''Put the server on ''" "[]"] by blast
  have no: "\<not> is_database_query ''Hello there''"
    by code_simp
  from yes is_database_query_substring [of "''Put the server on standby''" "[]" "[]"] no
  show ?thesis by simp
qed

text \<open>
  C10, as stated, fails: the question is \<open>None\<close> and the server is running; the
  \<open>list_tables\<close> call brings a result whose \<open>tables\<close> entry is the number 5, building the
  report raises after two requests, and the text returned is the direct-persistence
  report with the degraded-mode marker: neither the canned statistics report nor the
  no-analysis text.
\<close>

theorem blank_question_counterexample:
  "server_running (example_world [Eof, odd_tables_reply] [])
   \<and> fst (get_mcp_database_stats example_py (example_world [Eof, odd_tables_reply] [])) = Inl TypeError
   \<and> fst (execute_database_query example_py None (example_world [Eof, odd_tables_reply] []))
       = basic_database_analysis example_py example_store
   \<and> (case fst (execute_database_query example_py None (example_world [Eof, odd_tables_reply] [])) of
         Inr report \<Rightarrow> endswith report basic_marker
       | Inl e \<Rightarrow> False)
   \<and> fst (execute_database_query example_py None (example_world [Eof, odd_tables_reply] []))
       \<noteq> Inr ''No database analysis results available via MCP.''
   \<and> length (sent (snd (execute_database_query example_py None
                          (example_world [Eof, odd_tables_reply] [])))) = 2"
  by code_simp

text \<open>
  C10, amended. For every question that is \<open>None\<close>, empty or made of white space only,
  \<open>execute_database_query\<close> with the server running skips the metadata and NL-to-SQL paths
  and goes straight to the canned statistics stage: it returns the joined report, the
  no-analysis text when the report is empty, or, when building the report raises, what
  the direct-persistence analysis returns. No question is sent to the LLM, and the
  requests written are the canned tool calls, in their order, and nothing else.
\<close>

theorem blank_question_goes_to_stats:
  assumes "server_running w"
      and "user_question = None
           \<or> (\<exists>ks. user_question = Some (concat ks) \<and> set ks \<subseteq> set space_chars)"
  shows "execute_database_query P user_question w =
           (case get_mcp_database_stats P w of
              (Inr results, w1) \<Rightarrow>
                (Inr (if results \<noteq> [] then join nl results
                      else ''No database analysis results available via MCP.''), w1)
            | (Inl e, w1) \<Rightarrow> (basic_database_analysis P (persistence w1), w1))
       \<and> llm_asked (snd (execute_database_query P user_question w)) = llm_asked w
       \<and> (\<exists>new. sent (snd (execute_database_query P user_question w)) = sent w @ new
               \<and> map req_params new = take (length new) canned_calls)"
proof -
  from assms(2) have blank: "is_blank user_question"
    by (rule only_space_is_blank)
  have eq: "execute_database_query P user_question w =
           (case get_mcp_database_stats P w of
              (Inr results, w1) \<Rightarrow>
                (Inr (if results \<noteq> [] then join nl results
                      else ''No database analysis results available via MCP.''), w1)
            | (Inl e, w1) \<Rightarrow> (basic_database_analysis P (persistence w1), w1))"
    using assms(1) blank
    by (simp add: execute_database_query_def execute_try_def stats_report_def
        split: prod.splits sum.splits)
  then have "snd (execute_database_query P user_question w) = snd (get_mcp_database_stats P w)"
    by (simp split: prod.splits sum.splits)
  with eq stats_llm [of P w] stats_sent [of P w] show ?thesis
    by simp
qed

theorem blank_question_goes_to_stats_witness:
  "server_running (example_world [] [LlmResponse 200 ''body''])
   \<and> is_blank (Some ('' '' @ [CHR 0xC2, CHR 0xA0] @ [CHR 0x09]))
   \<and> fst (execute_database_query example_py (Some ('' '' @ [CHR 0xC2, CHR 0xA0] @ [CHR 0x09]))
            (example_world [] [LlmResponse 200 ''body'']))
       = Inr ''No database analysis results available via MCP.''
   \<and> llm_asked (snd (execute_database_query example_py (Some ('' '' @ [CHR 0xC2, CHR 0xA0] @ [CHR 0x09]))
                       (example_world [] [LlmResponse 200 ''body'']))) = []"
proof -
  let ?w = "example_world [] [LlmResponse 200 ''body'']"
  let ?q = "'' '' @ [CHR 0xC2, CHR 0xA0] @ [CHR 0x09]"
  have run: "server_running ?w"
    by (simp add: example_world_def)
  have "set ['' '', [CHR 0xC2, CHR 0xA0], [CHR 0x09]] \<subseteq> set space_chars"
    by (simp add: space_chars_def)
  moreover have "?q = concat ['' '', [CHR 0xC2, CHR 0xA0], [CHR 0x09]]"
    by simp
  ultimately have blank: "Some ?q = None
      \<or> (\<exists>ks. Some ?q = Some (concat ks) \<and> set ks \<subseteq> set space_chars)"
    by blast
  have res: "fst (execute_database_query example_py (Some ?q) ?w)
       = Inr ''No database analysis results available via MCP.''"
    by code_simp
  from blank_question_goes_to_stats [OF run blank, of example_py]
  have "llm_asked (snd (execute_database_query example_py (Some ?q) ?w)) = llm_asked ?w"
    by blast
  then have llm: "llm_asked (snd (execute_database_query example_py (Some ?q) ?w)) = []"
    by (simp add: example_world_def)
  have "is_blank (Some ?q)"
    by code_simp
  with run res llm show ?thesis
    by blast
qed

end
